theory Spec2Isabelle
  imports Complex_Main "HOL-Library.List_Lexorder" "HOL-Library.Char_ord"
    "HOL-Library.Product_Lexorder" "HOL-Library.Log_Nat"
begin

section \<open>The attendance store of \<^verbatim>\<open>attendance_sqlite_app.py\<close>\<close>

text \<open>
  The program keeps five SQLite tables, created by \<^verbatim>\<open>init_db\<close>. Each table is a list of
  rows in insertion order; a column declared without \<^verbatim>\<open>NOT NULL\<close> holds an option.
  Python outcomes are values of a sum type: \<open>Inl e\<close> is a raised exception, \<open>Inr v\<close> a
  returned value. Ids are rowids; the callers bind only ids that they have read from the
  tables, and an id is an \<open>int\<close> here.
\<close>

datatype error = IntegrityError | OperationalError | DatabaseError

record college_row =
  co_id :: int
  co_name :: string

record department_row =
  d_id :: int
  d_college_id :: int
  d_name :: string

record course_row =
  c_id :: int
  c_department_id :: int
  c_name :: string

record student_row =
  s_id :: int
  s_course_id :: int
  s_roll :: "string option"
  s_name :: string

record attendance_row =
  a_id :: int
  a_student_id :: int
  a_date :: string
  a_status :: string
  a_timestamp :: "string option"

text \<open>
  \<^verbatim>\<open>sqlite_sequence\<close> holds, for each \<^verbatim>\<open>AUTOINCREMENT\<close> table, the largest rowid ever
  handed out.
\<close>

record store =
  colleges :: "college_row list"
  departments :: "department_row list"
  courses :: "course_row list"
  students :: "student_row list"
  attendance :: "attendance_row list"
  seq_colleges :: int
  seq_departments :: int
  seq_courses :: int
  seq_students :: int
  seq_attendance :: int

text \<open>
  The database file: \<open>None\<close> is a file without tables (what \<^verbatim>\<open>sqlite3.connect\<close> creates
  when the file is missing), \<open>Some st\<close> a file whose five tables exist.
\<close>

type_synonym database = "store option"

definition empty_store :: store where
  "empty_store = \<lparr>colleges = [], departments = [], courses = [], students = [],
     attendance = [], seq_colleges = 0, seq_departments = 0, seq_courses = 0,
     seq_students = 0, seq_attendance = 0\<rparr>"

text \<open>\<^verbatim>\<open>CREATE TABLE IF NOT EXISTS\<close> five times: existing tables are kept as they are.\<close>

definition init_db :: "database \<Rightarrow> database" where
  "init_db db = (case db of None \<Rightarrow> Some empty_store | Some st \<Rightarrow> Some st)"

text \<open>
  A connection. SQLite enforces \<^verbatim>\<open>FOREIGN KEY\<close> clauses only on a connection that has run
  \<^verbatim>\<open>PRAGMA foreign_keys = ON\<close>; \<^verbatim>\<open>sqlite3.connect\<close> leaves the setting at its default, off,
  and \<^verbatim>\<open>get_conn\<close> runs no pragma.
\<close>

record conn =
  foreign_keys :: bool

definition get_conn :: conn where
  "get_conn = \<lparr>foreign_keys = False\<rparr>"

text \<open>
  \<^verbatim>\<open>sqlite3.connect(DB_PATH)\<close>, the first statement of \<^verbatim>\<open>get_conn\<close>, raises
  \<^verbatim>\<open>OperationalError\<close> (unable to open database file) when the path cannot be opened,
  and else gives access to the file. The CRUD operations and \<^verbatim>\<open>mark_attendance_for_date\<close>
  below are given the contents of a file that has opened; the flat query and the weekly
  report are given the path.
\<close>

datatype db_path = Cannot_open | Db_file database

definition sqlite3_connect :: "db_path \<Rightarrow> error + database" where
  "sqlite3_connect p = (case p of Cannot_open \<Rightarrow> Inl OperationalError | Db_file db \<Rightarrow> Inr db)"

subsection \<open>Python's \<^verbatim>\<open>str.strip()\<close>\<close>

text \<open>The characters below code point 256 for which \<^verbatim>\<open>str.isspace()\<close> is true.\<close>

definition is_space :: "char \<Rightarrow> bool" where
  "is_space c = ((of_char c :: nat) \<in> {9, 10, 11, 12, 13, 28, 29, 30, 31, 32, 133, 160})"

definition strip :: "string \<Rightarrow> string" where
  "strip s = rev (dropWhile is_space (rev (dropWhile is_space s)))"

subsection \<open>The statements the program executes\<close>

definition next_rowid :: "int \<Rightarrow> int list \<Rightarrow> int" where
  "next_rowid seq ids = max seq (fold max ids 0) + 1"

text \<open>\<^verbatim>\<open>INSERT INTO colleges(name) VALUES (?)\<close>, with \<^verbatim>\<open>name TEXT UNIQUE NOT NULL\<close>.\<close>

definition insert_college :: "conn \<Rightarrow> string \<Rightarrow> store \<Rightarrow> error + store" where
  "insert_college cn name st =
     (if \<exists>r \<in> set (colleges st). co_name r = name then Inl IntegrityError
      else let n = next_rowid (seq_colleges st) (map co_id (colleges st))
           in Inr (st\<lparr>colleges := colleges st @ [\<lparr>co_id = n, co_name = name\<rparr>],
                      seq_colleges := n\<rparr>))"

text \<open>
  \<^verbatim>\<open>INSERT INTO departments(college_id, name) VALUES (?,?)\<close>, with
  \<^verbatim>\<open>UNIQUE(college_id, name)\<close> and a foreign key to \<^verbatim>\<open>colleges(id)\<close>.
\<close>

definition insert_department :: "conn \<Rightarrow> int \<Rightarrow> string \<Rightarrow> store \<Rightarrow> error + store" where
  "insert_department cn college_id name st =
     (if \<exists>r \<in> set (departments st). d_college_id r = college_id \<and> d_name r = name
      then Inl IntegrityError
      else if foreign_keys cn \<and> college_id \<notin> set (map co_id (colleges st))
      then Inl IntegrityError
      else let n = next_rowid (seq_departments st) (map d_id (departments st))
           in Inr (st\<lparr>departments := departments st @
                        [\<lparr>d_id = n, d_college_id = college_id, d_name = name\<rparr>],
                      seq_departments := n\<rparr>))"

text \<open>
  \<^verbatim>\<open>INSERT INTO courses(department_id, name) VALUES (?,?)\<close>, with
  \<^verbatim>\<open>UNIQUE(department_id, name)\<close> and a foreign key to \<^verbatim>\<open>departments(id)\<close>.
\<close>

definition insert_course :: "conn \<Rightarrow> int \<Rightarrow> string \<Rightarrow> store \<Rightarrow> error + store" where
  "insert_course cn department_id name st =
     (if \<exists>r \<in> set (courses st). c_department_id r = department_id \<and> c_name r = name
      then Inl IntegrityError
      else if foreign_keys cn \<and> department_id \<notin> set (map d_id (departments st))
      then Inl IntegrityError
      else let n = next_rowid (seq_courses st) (map c_id (courses st))
           in Inr (st\<lparr>courses := courses st @
                        [\<lparr>c_id = n, c_department_id = department_id, c_name = name\<rparr>],
                      seq_courses := n\<rparr>))"

text \<open>
  \<^verbatim>\<open>INSERT INTO students(course_id, name, roll) VALUES (?,?,?)\<close>, with
  \<^verbatim>\<open>UNIQUE(course_id, roll)\<close> and a foreign key to \<^verbatim>\<open>courses(id)\<close>. In a \<^verbatim>\<open>UNIQUE\<close>
  index SQLite treats every NULL as different from every other value, NULL included, so
  only a row whose roll is not NULL can collide.
\<close>

definition insert_student ::
  "conn \<Rightarrow> int \<Rightarrow> string \<Rightarrow> string option \<Rightarrow> store \<Rightarrow> error + store" where
  "insert_student cn course_id name roll st =
     (if roll \<noteq> None \<and> (\<exists>r \<in> set (students st). s_course_id r = course_id \<and> s_roll r = roll)
      then Inl IntegrityError
      else if foreign_keys cn \<and> course_id \<notin> set (map c_id (courses st))
      then Inl IntegrityError
      else let n = next_rowid (seq_students st) (map s_id (students st))
           in Inr (st\<lparr>students := students st @
                        [\<lparr>s_id = n, s_course_id = course_id, s_roll = roll, s_name = name\<rparr>],
                      seq_students := n\<rparr>))"

text \<open>
  The upsert of \<^verbatim>\<open>mark_attendance_for_date\<close>:
  \<^verbatim>\<open>INSERT INTO attendance(student_id, date, status, timestamp) VALUES (?,?,?,?)
  ON CONFLICT(student_id, date) DO UPDATE SET status=excluded.status,
  timestamp=excluded.timestamp\<close>. \<open>upsert_rows\<close> is what the statement does to the table
  once its foreign key is accepted. SQLite draws the next rowid before it finds the
  conflict, so \<^verbatim>\<open>sqlite_sequence\<close> advances on an overwrite as well.
\<close>

definition upsert_rows :: "int \<Rightarrow> string \<Rightarrow> string \<Rightarrow> string \<Rightarrow> store \<Rightarrow> store" where
  "upsert_rows sid date_str status ts st =
     (let n = next_rowid (seq_attendance st) (map a_id (attendance st))
      in if \<exists>r \<in> set (attendance st). a_student_id r = sid \<and> a_date r = date_str
         then st\<lparr>attendance :=
                map (\<lambda>r. if a_student_id r = sid \<and> a_date r = date_str
                         then r\<lparr>a_status := status, a_timestamp := Some ts\<rparr> else r)
                  (attendance st),
                seq_attendance := n\<rparr>
         else st\<lparr>attendance := attendance st @
                  [\<lparr>a_id = n, a_student_id = sid, a_date = date_str,
                    a_status = status, a_timestamp = Some ts\<rparr>],
                seq_attendance := n\<rparr>)"

definition upsert_attendance ::
  "conn \<Rightarrow> int \<Rightarrow> string \<Rightarrow> string \<Rightarrow> string \<Rightarrow> store \<Rightarrow> error + store" where
  "upsert_attendance cn sid date_str status ts st =
     (if foreign_keys cn \<and> sid \<notin> set (map s_id (students st)) then Inl IntegrityError
      else Inr (upsert_rows sid date_str status ts st))"

text \<open>
  Executing a statement on the database file: on a file without tables every statement
  fails with \<^verbatim>\<open>OperationalError\<close> (no such table).
\<close>

definition execute :: "database \<Rightarrow> (store \<Rightarrow> error + store) \<Rightarrow> error + store" where
  "execute db stmt = (case db of None \<Rightarrow> Inl OperationalError | Some st \<Rightarrow> stmt st)"

subsection \<open>The CRUD operations\<close>

text \<open>
  Each operation returns the Python outcome and the database file after it. Only
  \<^verbatim>\<open>sqlite3.IntegrityError\<close> is caught; it closes the connection without a commit and
  returns \<^verbatim>\<open>False\<close>. Any other exception propagates, again without a commit.
\<close>

definition add_result :: "database \<Rightarrow> error + store \<Rightarrow> (error + bool) \<times> database" where
  "add_result db r =
     (case r of
        Inl IntegrityError \<Rightarrow> (Inr False, db)
      | Inl e \<Rightarrow> (Inl e, db)
      | Inr st' \<Rightarrow> (Inr True, Some st'))"

definition add_college :: "database \<Rightarrow> string \<Rightarrow> (error + bool) \<times> database" where
  "add_college db name = add_result db (execute db (insert_college get_conn (strip name)))"

definition add_department :: "database \<Rightarrow> int \<Rightarrow> string \<Rightarrow> (error + bool) \<times> database" where
  "add_department db college_id name =
     add_result db (execute db (insert_department get_conn college_id (strip name)))"

definition add_course :: "database \<Rightarrow> int \<Rightarrow> string \<Rightarrow> (error + bool) \<times> database" where
  "add_course db department_id name =
     add_result db (execute db (insert_course get_conn department_id (strip name)))"

text \<open>
  \<^verbatim>\<open>roll.strip() if roll else None\<close>: \<^verbatim>\<open>None\<close> and the empty string are both falsy and
  are stored as NULL.
\<close>

definition roll_param :: "string option \<Rightarrow> string option" where
  "roll_param roll = (case roll of None \<Rightarrow> None
                       | Some s \<Rightarrow> if s = [] then None else Some (strip s))"

definition add_student ::
  "database \<Rightarrow> int \<Rightarrow> string \<Rightarrow> string option \<Rightarrow> (error + bool) \<times> database" where
  "add_student db course_id name roll =
     add_result db
       (execute db (insert_student get_conn course_id (strip name) (roll_param roll)))"

subsection \<open>Marking attendance\<close>

text \<open>
  \<^verbatim>\<open>student_status_map\<close> is a dict; its items are a list of (student id, status) pairs
  in iteration order. \<open>ts\<close> is the one reading
  \<^verbatim>\<open>datetime.now().isoformat(timespec='seconds')\<close> taken before the loop. The loop
  executes one upsert per item; the commit follows the loop, so an exception inside
  the loop leaves the file as it was.
\<close>

fun upsert_all ::
  "conn \<Rightarrow> (int \<times> string) list \<Rightarrow> string \<Rightarrow> string \<Rightarrow> database \<Rightarrow> error + database" where
  "upsert_all cn [] date_str ts db = Inr db"
| "upsert_all cn ((sid, status) # m) date_str ts db =
     (case execute db (upsert_attendance cn sid date_str status ts) of
        Inl e \<Rightarrow> Inl e
      | Inr st' \<Rightarrow> upsert_all cn m date_str ts (Some st'))"

definition mark_attendance_for_date ::
  "database \<Rightarrow> (int \<times> string) list \<Rightarrow> string \<Rightarrow> string \<Rightarrow> (error + bool) \<times> database" where
  "mark_attendance_for_date db student_status_map date_str ts =
     (case upsert_all get_conn student_status_map date_str ts db of
        Inl e \<Rightarrow> (Inl e, db)
      | Inr db' \<Rightarrow> (Inr True, db'))"

subsection \<open>The flat attendance query\<close>

text \<open>One row of the five-table join, with the column names of the \<^verbatim>\<open>SELECT\<close>.\<close>

record att_flat =
  att_id :: int
  student_id :: int
  student_name :: string
  roll :: "string option"
  course_id :: int
  course :: string
  department_id :: int
  department :: string
  college_id :: int
  college :: string
  date :: string
  status :: string
  timestamp :: "string option"

record dataframe =
  columns :: "string list"
  rows :: "att_flat list"

definition flat_columns :: "string list" where
  "flat_columns = [''att_id'', ''student_id'', ''student_name'', ''roll'', ''course_id'',
     ''course'', ''department_id'', ''department'', ''college_id'', ''college'', ''date'',
     ''status'', ''timestamp'']"

text \<open>\<^verbatim>\<open>pd.DataFrame()\<close>: no columns, no rows.\<close>

definition empty_DataFrame :: dataframe where
  "empty_DataFrame = \<lparr>columns = [], rows = []\<rparr>"

text \<open>\<^verbatim>\<open>df.empty\<close>: some axis has length 0.\<close>

definition empty :: "dataframe \<Rightarrow> bool" where
  "empty df = (columns df = [] \<or> rows df = [])"

text \<open>
  The callers build \<^verbatim>\<open>filter_clause\<close> as \<^verbatim>\<open>"WHERE " + " AND ".join(clauses)\<close> from six
  clause texts and put the bound values in \<^verbatim>\<open>params\<close> in the same order. A clause is kept
  here together with its bound values:
  \<^verbatim>\<open>a.date = ?\<close>, \<^verbatim>\<open>a.date BETWEEN ? AND ?\<close>, \<^verbatim>\<open>co.id = ?\<close>, \<^verbatim>\<open>d.id = ?\<close>, \<^verbatim>\<open>c.id = ?\<close>,
  \<^verbatim>\<open>s.id = ?\<close>. \<open>No_filter\<close> is the default empty text; \<open>Where []\<close> is the text
  \<^verbatim>\<open>"WHERE "\<close>, which SQLite rejects as a syntax error before \<^verbatim>\<open>ORDER BY\<close>.
\<close>

datatype clause =
    Date_eq string
  | Date_between string string
  | College_eq int
  | Department_eq int
  | Course_eq int
  | Student_eq int

datatype filter_clause = No_filter | Where "clause list"

text \<open>Text columns compare bytewise (collation \<^verbatim>\<open>BINARY\<close>), as the order on strings does.\<close>

fun holds :: "clause \<Rightarrow> att_flat \<Rightarrow> bool" where
  "holds (Date_eq s) r = (date r = s)"
| "holds (Date_between lo hi) r = (lo \<le> date r \<and> date r \<le> hi)"
| "holds (College_eq i) r = (college_id r = i)"
| "holds (Department_eq i) r = (department_id r = i)"
| "holds (Course_eq i) r = (course_id r = i)"
| "holds (Student_eq i) r = (student_id r = i)"

definition joined :: "store \<Rightarrow> att_flat list" where
  "joined st =
     [\<lparr>att_id = a_id a, student_id = s_id s, student_name = s_name s, roll = s_roll s,
       course_id = c_id c, course = c_name c, department_id = d_id d,
       department = d_name d, college_id = co_id co, college = co_name co,
       date = a_date a, status = a_status a, timestamp = a_timestamp a\<rparr>.
      a \<leftarrow> attendance st, s \<leftarrow> students st, s_id s = a_student_id a,
      c \<leftarrow> courses st, c_id c = s_course_id s,
      d \<leftarrow> departments st, d_id d = c_department_id c,
      co \<leftarrow> colleges st, co_id co = d_college_id d]"

text \<open>
  \<^verbatim>\<open>ORDER BY a.date DESC, co.name, d.name, c.name, s.name\<close>. SQL leaves the order of rows
  with equal keys open; here they keep the order of the join.
\<close>

definition order_by :: "att_flat list \<Rightarrow> att_flat list" where
  "order_by xs =
     rev (sort_key date
       (rev (sort_key (\<lambda>r. (college r, department r, course r, student_name r)) xs)))"

definition where_rows :: "clause list \<Rightarrow> store \<Rightarrow> att_flat list" where
  "where_rows cs st = order_by (filter (\<lambda>r. \<forall>c \<in> set cs. holds c r) (joined st))"

text \<open>
  \<^verbatim>\<open>pd.read_sql_query(q, get_conn(), params=params)\<close>: pandas re-raises a failure of the
  statement as its \<^verbatim>\<open>DatabaseError\<close>.
\<close>

definition read_sql_query :: "database \<Rightarrow> filter_clause \<Rightarrow> error + dataframe" where
  "read_sql_query db fc =
     (case db of
        None \<Rightarrow> Inl DatabaseError
      | Some st \<Rightarrow>
          (case fc of
             No_filter \<Rightarrow> Inr \<lparr>columns = flat_columns, rows = where_rows [] st\<rparr>
           | Where [] \<Rightarrow> Inl DatabaseError
           | Where cs \<Rightarrow> Inr \<lparr>columns = flat_columns, rows = where_rows cs st\<rparr>))"

text \<open>
  \<^verbatim>\<open>get_attendance_df\<close> first runs \<^verbatim>\<open>conn = get_conn()\<close>, outside any \<^verbatim>\<open>try\<close>, and never
  uses \<open>conn\<close>. Inside the \<^verbatim>\<open>try\<close> it calls \<^verbatim>\<open>get_conn()\<close> again for the read, and
  \<^verbatim>\<open>except Exception\<close> turns every failure there into \<^verbatim>\<open>pd.DataFrame()\<close>.
\<close>

definition get_attendance_df :: "db_path \<Rightarrow> filter_clause \<Rightarrow> error + dataframe" where
  "get_attendance_df p fc =
     (case sqlite3_connect p of
        Inl e \<Rightarrow> Inl e
      | Inr conn_db \<Rightarrow>
          (case (case sqlite3_connect p of
                   Inl e \<Rightarrow> Inl e
                 | Inr db \<Rightarrow> read_sql_query db fc) of
             Inl e \<Rightarrow> Inr empty_DataFrame
           | Inr df \<Rightarrow> Inr df))"

subsection \<open>Python dates\<close>

text \<open>
  A \<^verbatim>\<open>datetime.date\<close> with \<^verbatim>\<open>toordinal\<close> as the standard library computes it;
  \<^verbatim>\<open>(end - start).days\<close> is the difference of the ordinals.
\<close>

record pydate =
  year :: int
  month :: int
  day :: int

definition is_leap :: "int \<Rightarrow> bool" where
  "is_leap y = (y mod 4 = 0 \<and> (y mod 100 \<noteq> 0 \<or> y mod 400 = 0))"

definition days_before_year :: "int \<Rightarrow> int" where
  "days_before_year y = (y - 1) * 365 + (y - 1) div 4 - (y - 1) div 100 + (y - 1) div 400"

definition days_before_month :: "int \<Rightarrow> int \<Rightarrow> int" where
  "days_before_month y m =
     [0, 31, 59, 90, 120, 151, 181, 212, 243, 273, 304, 334] ! nat (m - 1)
       + (if m > 2 \<and> is_leap y then 1 else 0)"

definition toordinal :: "pydate \<Rightarrow> int" where
  "toordinal d = days_before_year (year d) + days_before_month (year d) (month d) + day d"

definition days_between :: "pydate \<Rightarrow> pydate \<Rightarrow> int" where
  "days_between end_date start_date = toordinal end_date - toordinal start_date"

text \<open>\<^verbatim>\<open>start_date > end_date\<close> compares year, month and day in this order.\<close>

definition date_gt :: "pydate \<Rightarrow> pydate \<Rightarrow> bool" where
  "date_gt a b = ((year a, month a, day a) > (year b, month b, day b))"

definition digit :: "int \<Rightarrow> char" where
  "digit n = ''0123456789'' ! nat (n mod 10)"

text \<open>\<^verbatim>\<open>strftime("%Y-%m-%d")\<close> for the years 1000 to 9999.\<close>

definition strftime_ymd :: "pydate \<Rightarrow> string" where
  "strftime_ymd d =
     [digit (year d div 1000), digit (year d div 100), digit (year d div 10), digit (year d)]
     @ ''-'' @ [digit (month d div 10), digit (month d)]
     @ ''-'' @ [digit (day d div 10), digit (day d)]"

subsection \<open>Binary64 arithmetic\<close>

text \<open>
  The percentage is computed in IEEE binary64. A finite double is \<open>Finite m e\<close>, the
  number \<open>m * 2 ^ e\<close> with \<open>2 ^ 52 \<le> \<bar>m\<bar> < 2 ^ 53\<close>, or \<open>Finite 0 0\<close> for zero. Rounding
  is to the nearest double, ties to the even mantissa. The exponent range is not
  bounded and the sign of zero is not kept: a row count and a number of days are 64-bit
  integers, far from overflow and underflow.
\<close>

datatype double = Finite int int | Pos_inf | Neg_inf | NaN

text \<open>The integer nearest to \<open>a / b\<close>, ties to the even one, for \<open>0 \<le> a\<close> and \<open>0 < b\<close>.\<close>

definition rhe_div :: "int \<Rightarrow> int \<Rightarrow> int" where
  "rhe_div a b =
     (if 2 * (a mod b) < b then a div b
      else if b < 2 * (a mod b) then a div b + 1
      else if even (a div b) then a div b else a div b + 1)"

text \<open>The \<open>e\<close> with \<open>2 ^ e \<le> n / b < 2 ^ (e + 1)\<close>, for \<open>0 < n\<close> and \<open>0 < b\<close>.\<close>

definition exponent_of :: "int \<Rightarrow> int \<Rightarrow> int" where
  "exponent_of n b =
     (if (if bitlen b \<le> bitlen n then b * 2 ^ nat (bitlen n - bitlen b) \<le> n
          else b \<le> n * 2 ^ nat (bitlen b - bitlen n))
      then bitlen n - bitlen b else bitlen n - bitlen b - 1)"

definition mantissa_of :: "int \<Rightarrow> int \<Rightarrow> int \<Rightarrow> int" where
  "mantissa_of n b e =
     (if e \<le> 52 then rhe_div (n * 2 ^ nat (52 - e)) b else rhe_div n (b * 2 ^ nat (e - 52)))"

definition normal :: "int \<Rightarrow> int \<Rightarrow> int \<Rightarrow> double" where
  "normal s m e = (if m = 2 ^ 53 then Finite (s * 2 ^ 52) (e - 51) else Finite (s * m) (e - 52))"

text \<open>The double nearest to the quotient \<open>a / b\<close> of two integers, \<open>0 < b\<close>.\<close>

definition double_of_quot :: "int \<Rightarrow> int \<Rightarrow> double" where
  "double_of_quot a b =
     (if a = 0 then Finite 0 0
      else normal (sgn a) (mantissa_of \<bar>a\<bar> b (exponent_of \<bar>a\<bar> b)) (exponent_of \<bar>a\<bar> b))"

definition double_of_scaled :: "int \<Rightarrow> int \<Rightarrow> double" where
  "double_of_scaled a e =
     (if 0 \<le> e then double_of_quot (a * 2 ^ nat e) 1 else double_of_quot a (2 ^ nat (- e)))"

text \<open>The conversion of an integer column to binary64.\<close>

definition double_of_int :: "int \<Rightarrow> double" where
  "double_of_int i = double_of_quot i 1"

text \<open>
  Division of two doubles; a zero divisor gives an infinity or NaN and no exception, as
  pandas divides columns. The operands here are converted integers, hence finite.
\<close>

fun true_divide :: "double \<Rightarrow> double \<Rightarrow> double" where
  "true_divide (Finite m1 e1) (Finite m2 e2) =
     (if m2 = 0 then (if m1 = 0 then NaN else if 0 < m1 then Pos_inf else Neg_inf)
      else if e2 \<le> e1 then double_of_quot (sgn m2 * m1 * 2 ^ nat (e1 - e2)) \<bar>m2\<bar>
      else double_of_quot (sgn m2 * m1) (\<bar>m2\<bar> * 2 ^ nat (e2 - e1)))"
| "true_divide x y = NaN"

text \<open>A double times, and divided by, a positive integer constant such as 100.\<close>

fun times_int :: "double \<Rightarrow> int \<Rightarrow> double" where
  "times_int (Finite m e) c = double_of_scaled (m * c) e"
| "times_int x c = x"

fun div_int :: "double \<Rightarrow> int \<Rightarrow> double" where
  "div_int (Finite m e) c =
     (if 0 \<le> e then double_of_quot (m * 2 ^ nat e) c else double_of_quot m (c * 2 ^ nat (- e)))"
| "div_int x c = x"

text \<open>numpy's \<^verbatim>\<open>rint\<close>: the nearest integer, ties to even, as a double.\<close>

fun rint :: "double \<Rightarrow> double" where
  "rint (Finite m e) =
     (if 0 \<le> e then Finite m e else double_of_int (sgn m * rhe_div \<bar>m\<bar> (2 ^ nat (- e))))"
| "rint x = x"

text \<open>
  \<^verbatim>\<open>Series.round(2)\<close> is numpy's rounding: the double times 100, then \<^verbatim>\<open>rint\<close>, then
  divided by 100, each step in binary64.
\<close>

definition round2 :: "double \<Rightarrow> double" where
  "round2 v = div_int (rint (times_int v 100)) 100"

text \<open>
  \<^verbatim>\<open>merged['PresentCount'] / merged['TotalDays'] * 100\<close>: both integer columns are
  converted to binary64, divided, and the quotient is multiplied by 100.
\<close>

definition percent :: "int \<Rightarrow> int \<Rightarrow> double" where
  "percent present_count total_days =
     times_int (true_divide (double_of_int present_count) (double_of_int total_days)) 100"

subsection \<open>The weekly summary\<close>

text \<open>
  The block of the page "Reports \<open>&\<close> Export" that runs on "Generate Weekly Excel Report".
  pandas treats \<^verbatim>\<open>None\<close> in a column as missing: \<^verbatim>\<open>groupby\<close> leaves out every row with a
  missing key, and \<^verbatim>\<open>fillna(0)\<close> replaces every missing cell, the roll included, by 0.
\<close>

datatype cell = Text string | Number int

record summary_row =
  sum_student_name :: string
  sum_roll :: cell
  PresentCount :: int
  TotalDays :: int
  Attendance_pct :: double

text \<open>
  \<^verbatim>\<open>df_week[df_week['status']=="Present"].groupby(['student_name','roll']).size()\<close>: one entry
  per key in sorted order, with the number of rows of that key.
\<close>

definition group_keys :: "att_flat list \<Rightarrow> (string \<times> string) list" where
  "group_keys xs = [(student_name r, s). r \<leftarrow> xs, s \<leftarrow> (case roll r of None \<Rightarrow> [] | Some s \<Rightarrow> [s])]"

definition groupby_size :: "att_flat list \<Rightarrow> ((string \<times> string) \<times> nat) list" where
  "groupby_size xs =
     map (\<lambda>k. (k, count_list (group_keys xs) k)) (sort (remdups (group_keys xs)))"

definition presences :: "att_flat list \<Rightarrow> ((string \<times> string) \<times> nat) list" where
  "presences df_week = groupby_size (filter (\<lambda>r. status r = ''Present'') df_week)"

text \<open>\<^verbatim>\<open>drop_duplicates()\<close> keeps the first occurrence of each row.\<close>

definition drop_duplicates :: "'a list \<Rightarrow> 'a list" where
  "drop_duplicates xs = rev (remdups (rev xs))"

definition students_list :: "att_flat list \<Rightarrow> (string \<times> string option) list" where
  "students_list df_week = drop_duplicates (map (\<lambda>r. (student_name r, roll r)) df_week)"

text \<open>
  \<^verbatim>\<open>students_list.merge(presences, on=['student_name','roll'], how='left')\<close>: every left row
  in order, once for each right row with the same key, or once with a missing count.
\<close>

definition merge_left ::
  "(string \<times> string option) list \<Rightarrow> ((string \<times> string) \<times> nat) list
     \<Rightarrow> (string \<times> string option \<times> nat option) list" where
  "merge_left left right =
     concat (map (\<lambda>(n, ro).
        (case [c. ((n', s'), c) \<leftarrow> right, n' = n \<and> Some s' = ro] of
           [] \<Rightarrow> [(n, ro, None)]
         | cs \<Rightarrow> map (\<lambda>c. (n, ro, Some c)) cs)) left)"

definition weekly_summary :: "att_flat list \<Rightarrow> pydate \<Rightarrow> pydate \<Rightarrow> summary_row list" where
  "weekly_summary df_week start_date end_date =
     (let total_days = days_between end_date start_date + 1
      in map (\<lambda>(n, ro, c).
            let pc = (case c of None \<Rightarrow> 0 | Some k \<Rightarrow> int k)
            in \<lparr>sum_student_name = n,
                sum_roll = (case ro of None \<Rightarrow> Number 0 | Some s \<Rightarrow> Text s),
                PresentCount = pc,
                TotalDays = total_days,
                Attendance_pct = round2 (percent pc total_days)\<rparr>)
          (merge_left (students_list df_week) (presences df_week)))"

datatype report = Invalid_date_range | No_attendance_data | Weekly "summary_row list" dataframe

text \<open>
  The whole block: \<open>student_choice\<close> is \<open>None\<close> for "All", else the id parsed from the
  selected option. The result holds the two tables that the block hands to the workbook
  writer.
\<close>

definition weekly_report ::
  "db_path \<Rightarrow> int \<Rightarrow> int option \<Rightarrow> pydate \<Rightarrow> pydate \<Rightarrow> error + report" where
  "weekly_report p course_id_for_report student_choice start_date end_date =
     (if date_gt start_date end_date then Inr Invalid_date_range
      else
        case get_attendance_df p
               (Where ([Date_between (strftime_ymd start_date) (strftime_ymd end_date),
                        Course_eq course_id_for_report]
                       @ (case student_choice of None \<Rightarrow> [] | Some sid \<Rightarrow> [Student_eq sid]))) of
          Inl e \<Rightarrow> Inl e
        | Inr df_week \<Rightarrow>
            if empty df_week then Inr No_attendance_data
            else Inr (Weekly (weekly_summary (rows df_week) start_date end_date) df_week))"

subsection \<open>Observations on the store\<close>

text \<open>The attendance rows of one student on one date.\<close>

definition marks_for :: "store \<Rightarrow> int \<Rightarrow> string \<Rightarrow> attendance_row list" where
  "marks_for st sid d = filter (\<lambda>r. a_student_id r = sid \<and> a_date r = d) (attendance st)"

text \<open>\<^verbatim>\<open>UNIQUE(student_id, date)\<close> on the attendance table.\<close>

definition unique_attendance :: "store \<Rightarrow> bool" where
  "unique_attendance st = distinct (map (\<lambda>r. (a_student_id r, a_date r)) (attendance st))"

text \<open>
  The one row of a student on a date carries, in the database \<open>db'\<close>, a timestamp that
  is later, as a string, than the one it carries in \<open>db\<close>. ISO timestamps of equal
  length order as their instants.
\<close>

definition newer_timestamp :: "database \<Rightarrow> database \<Rightarrow> int \<Rightarrow> string \<Rightarrow> bool" where
  "newer_timestamp db db' sid d =
     (case (db, db') of
        (Some st, Some st') \<Rightarrow>
          (case (map a_timestamp (marks_for st sid d), map a_timestamp (marks_for st' sid d)) of
             ([Some t], [Some t']) \<Rightarrow> t < t'
           | _ \<Rightarrow> False)
      | _ \<Rightarrow> False)"

text \<open>A joined row passes the filter.\<close>

fun matches :: "filter_clause \<Rightarrow> att_flat \<Rightarrow> bool" where
  "matches No_filter r = True"
| "matches (Where cs) r = list_all (\<lambda>c. holds c r) cs"

text \<open>The number of rows of each of the five tables.\<close>

definition row_counts :: "database \<Rightarrow> nat list" where
  "row_counts db =
     (case db of None \<Rightarrow> []
      | Some st \<Rightarrow> [length (colleges st), length (departments st), length (courses st),
                    length (students st), length (attendance st)])"

subsection \<open>A small database\<close>

text \<open>
  One college, one department, one course and three students, of whom Bob has no roll
  number, as entered through the Setup page.
\<close>

definition demo_store :: store where
  "demo_store =
     \<lparr>colleges = [\<lparr>co_id = 1, co_name = ''MIT''\<rparr>],
      departments = [\<lparr>d_id = 1, d_college_id = 1, d_name = ''CS''\<rparr>],
      courses = [\<lparr>c_id = 1, c_department_id = 1, c_name = ''Algo''\<rparr>],
      students =
        [\<lparr>s_id = 1, s_course_id = 1, s_roll = Some ''R1'', s_name = ''Alice''\<rparr>,
         \<lparr>s_id = 2, s_course_id = 1, s_roll = None, s_name = ''Bob''\<rparr>,
         \<lparr>s_id = 3, s_course_id = 1, s_roll = Some ''R3'', s_name = ''Carol''\<rparr>],
      attendance = [],
      seq_colleges = 1, seq_departments = 1, seq_courses = 1, seq_students = 3,
      seq_attendance = 0\<rparr>"

text \<open>
  A week of marking: Alice and Bob are present on the first three days of January 2024
  and absent on the fourth.
\<close>

definition demo_week :: database where
  "demo_week =
     snd (mark_attendance_for_date
       (snd (mark_attendance_for_date
         (snd (mark_attendance_for_date
           (snd (mark_attendance_for_date (Some demo_store)
              [(1, ''Present''), (2, ''Present'')] ''2024-01-01'' ''2024-01-01T09:00:00''))
           [(1, ''Present''), (2, ''Present'')] ''2024-01-02'' ''2024-01-02T09:00:00''))
         [(1, ''Present''), (2, ''Present'')] ''2024-01-03'' ''2024-01-03T09:00:00''))
       [(1, ''Absent''), (2, ''Absent'')] ''2024-01-04'' ''2024-01-04T09:00:00'')"

text \<open>
  Alice marked present and, within the same second, marked absent for the same date.
\<close>

definition demo_marked_once :: database where
  "demo_marked_once =
     snd (mark_attendance_for_date (Some demo_store) [(1, ''Present'')] ''2024-01-05''
            ''2024-01-05T09:00:00'')"

definition demo_marked_twice :: database where
  "demo_marked_twice =
     snd (mark_attendance_for_date demo_marked_once [(1, ''Absent'')] ''2024-01-05''
            ''2024-01-05T09:00:00'')"

text \<open>The small database once Alice has been marked present.\<close>

definition demo_marked_store :: store where
  "demo_marked_store =
     demo_store\<lparr>attendance :=
        [\<lparr>a_id = 1, a_student_id = 1, a_date = ''2024-01-05'', a_status = ''Present'',
          a_timestamp = Some ''2024-01-05T09:00:00''\<rparr>],
        seq_attendance := 1\<rparr>"

section \<open>The add operations\<close>

lemma add_result_IntegrityError: "add_result db (Inl IntegrityError) = (Inr False, db)"
  by (simp add: add_result_def)

lemma add_result_Inr: "add_result db (Inr st') = (Inr True, Some st')"
  by (simp add: add_result_def)

lemma execute_Some: "execute (Some st) stmt = stmt st"
  by (simp add: execute_def)

text \<open>
  C2. When the insert of \<^verbatim>\<open>add_college\<close>, \<^verbatim>\<open>add_department\<close>, \<^verbatim>\<open>add_course\<close> or
  \<^verbatim>\<open>add_student\<close> collides with a row under the table's uniqueness constraint (the
  stripped name, or the stored roll when it is not NULL), the operation returns
  \<^verbatim>\<open>False\<close> instead of raising, and the database is the one it was called on: no table
  gains or loses a row.
\<close>

theorem add_unique_violation_returns_False:
  "((\<exists>r \<in> set (colleges st). co_name r = strip n1) \<longrightarrow>
      add_college (Some st) n1 = (Inr False, Some st) \<and>
      row_counts (snd (add_college (Some st) n1)) = row_counts (Some st)) \<and>
   ((\<exists>r \<in> set (departments st). d_college_id r = coid \<and> d_name r = strip n2) \<longrightarrow>
      add_department (Some st) coid n2 = (Inr False, Some st) \<and>
      row_counts (snd (add_department (Some st) coid n2)) = row_counts (Some st)) \<and>
   ((\<exists>r \<in> set (courses st). c_department_id r = did \<and> c_name r = strip n3) \<longrightarrow>
      add_course (Some st) did n3 = (Inr False, Some st) \<and>
      row_counts (snd (add_course (Some st) did n3)) = row_counts (Some st)) \<and>
   ((\<exists>r \<in> set (students st).
        s_course_id r = cid \<and> s_roll r = roll_param ro \<and> s_roll r \<noteq> None) \<longrightarrow>
      add_student (Some st) cid n4 ro = (Inr False, Some st) \<and>
      row_counts (snd (add_student (Some st) cid n4 ro)) = row_counts (Some st))"
proof -
  have college: "add_college (Some st) n1 = (Inr False, Some st)"
    if "\<exists>r \<in> set (colleges st). co_name r = strip n1"
  proof -
    from that have "insert_college get_conn (strip n1) st = Inl IntegrityError"
      by (simp add: insert_college_def)
    then show ?thesis
      by (simp add: add_college_def execute_Some add_result_IntegrityError)
  qed
  have department: "add_department (Some st) coid n2 = (Inr False, Some st)"
    if "\<exists>r \<in> set (departments st). d_college_id r = coid \<and> d_name r = strip n2"
  proof -
    from that have "insert_department get_conn coid (strip n2) st = Inl IntegrityError"
      by (simp add: insert_department_def)
    then show ?thesis
      by (simp add: add_department_def execute_Some add_result_IntegrityError)
  qed
  have course: "add_course (Some st) did n3 = (Inr False, Some st)"
    if "\<exists>r \<in> set (courses st). c_department_id r = did \<and> c_name r = strip n3"
  proof -
    from that have "insert_course get_conn did (strip n3) st = Inl IntegrityError"
      by (simp add: insert_course_def)
    then show ?thesis
      by (simp add: add_course_def execute_Some add_result_IntegrityError)
  qed
  have student: "add_student (Some st) cid n4 ro = (Inr False, Some st)"
    if "\<exists>r \<in> set (students st).
          s_course_id r = cid \<and> s_roll r = roll_param ro \<and> s_roll r \<noteq> None"
  proof -
    from that
    have "insert_student get_conn cid (strip n4) (roll_param ro) st = Inl IntegrityError"
      by (auto simp add: insert_student_def)
    then show ?thesis
      by (simp add: add_student_def execute_Some add_result_IntegrityError)
  qed
  show ?thesis
    using college department course student by simp
qed

theorem add_unique_violation_witness:
  "add_college (Some demo_store) '' MIT '' = (Inr False, Some demo_store) \<and>
   add_department (Some demo_store) 1 ''CS'' = (Inr False, Some demo_store) \<and>
   add_course (Some demo_store) 1 ''Algo  '' = (Inr False, Some demo_store) \<and>
   add_student (Some demo_store) 1 ''Dave'' (Some '' R1'') = (Inr False, Some demo_store)"
  using add_unique_violation_returns_False
    [of demo_store "'' MIT ''" 1 "''CS''" 1 "''Algo  ''" 1 "Some '' R1''" "''Dave''"]
  by (simp add: demo_store_def strip_def is_space_def roll_param_def)

lemma roll_param_falsy: "ro = None \<or> ro = Some [] \<Longrightarrow> roll_param ro = None"
  by (auto simp add: roll_param_def)

lemma insert_student_NULL_roll:
  "insert_student get_conn cid nm None st =
     Inr (st\<lparr>students := students st @
             [\<lparr>s_id = next_rowid (seq_students st) (map s_id (students st)),
               s_course_id = cid, s_roll = None, s_name = nm\<rparr>],
           seq_students := next_rowid (seq_students st) (map s_id (students st))\<rparr>)"
  by (simp add: insert_student_def get_conn_def Let_def)

lemma add_student_NULL_roll:
  assumes "ro = None \<or> ro = Some []"
  shows "add_student (Some st) cid n ro =
     (Inr True,
      Some (st\<lparr>students := students st @
             [\<lparr>s_id = next_rowid (seq_students st) (map s_id (students st)),
               s_course_id = cid, s_roll = None, s_name = strip n\<rparr>],
           seq_students := next_rowid (seq_students st) (map s_id (students st))\<rparr>))"
  using assms
  by (simp add: add_student_def execute_Some roll_param_falsy insert_student_NULL_roll
      add_result_Inr)

lemma add_student_NULL_roll_repeat:
  assumes "ro = None \<or> ro = Some []"
  shows "\<exists>st'. ((\<lambda>db. snd (add_student db cid n ro)) ^^ k) (Some st) = Some st' \<and>
           length [r \<leftarrow> students st'. s_course_id r = cid \<and> s_roll r = None] =
             length [r \<leftarrow> students st. s_course_id r = cid \<and> s_roll r = None] + k"
proof (induction k)
  case 0
  show ?case by simp
next
  case (Suc k)
  then obtain st' where
    st': "((\<lambda>db. snd (add_student db cid n ro)) ^^ k) (Some st) = Some st'"
    and nulls: "length [r \<leftarrow> students st'. s_course_id r = cid \<and> s_roll r = None] =
             length [r \<leftarrow> students st. s_course_id r = cid \<and> s_roll r = None] + k"
    by blast
  show ?case
    using st' nulls by (simp add: add_student_NULL_roll [OF assms])
qed

text \<open>
  C10. \<^verbatim>\<open>add_student\<close> called with the roll \<^verbatim>\<open>None\<close> or the empty string stores NULL
  as the roll and returns \<^verbatim>\<open>True\<close> whatever the table holds, since a NULL roll collides
  with nothing under \<^verbatim>\<open>UNIQUE(course_id, roll)\<close>; so after any number \<open>k\<close> of such calls
  for one course the table holds \<open>k\<close> more students of that course without a roll, and the
  next such call returns \<^verbatim>\<open>True\<close> again.
\<close>

theorem add_student_without_roll:
  assumes "ro = None \<or> ro = Some []"
  shows "add_student (Some st) cid n ro =
     (Inr True,
      Some (st\<lparr>students := students st @
             [\<lparr>s_id = next_rowid (seq_students st) (map s_id (students st)),
               s_course_id = cid, s_roll = None, s_name = strip n\<rparr>],
           seq_students := next_rowid (seq_students st) (map s_id (students st))\<rparr>))
     \<and> (\<forall>k. \<exists>st'. ((\<lambda>db. snd (add_student db cid n ro)) ^^ k) (Some st) = Some st' \<and>
            length [r \<leftarrow> students st'. s_course_id r = cid \<and> s_roll r = None] =
              length [r \<leftarrow> students st. s_course_id r = cid \<and> s_roll r = None] + k \<and>
            fst (add_student (Some st') cid n ro) = Inr True)"
proof (intro conjI allI)
  show "add_student (Some st) cid n ro =
     (Inr True,
      Some (st\<lparr>students := students st @
             [\<lparr>s_id = next_rowid (seq_students st) (map s_id (students st)),
               s_course_id = cid, s_roll = None, s_name = strip n\<rparr>],
           seq_students := next_rowid (seq_students st) (map s_id (students st))\<rparr>))"
    by (rule add_student_NULL_roll [OF assms])
next
  fix k
  from add_student_NULL_roll_repeat
    [OF assms, where cid = cid and n = n and k = k and st = st]
  obtain st' where
    "((\<lambda>db. snd (add_student db cid n ro)) ^^ k) (Some st) = Some st'"
    "length [r \<leftarrow> students st'. s_course_id r = cid \<and> s_roll r = None] =
       length [r \<leftarrow> students st. s_course_id r = cid \<and> s_roll r = None] + k"
    by blast
  moreover have "fst (add_student (Some st') cid n ro) = Inr True"
    by (simp add: add_student_NULL_roll [OF assms])
  ultimately
  show "\<exists>st'. ((\<lambda>db. snd (add_student db cid n ro)) ^^ k) (Some st) = Some st' \<and>
            length [r \<leftarrow> students st'. s_course_id r = cid \<and> s_roll r = None] =
              length [r \<leftarrow> students st. s_course_id r = cid \<and> s_roll r = None] + k \<and>
            fst (add_student (Some st') cid n ro) = Inr True"
    by blast
qed

theorem add_student_without_roll_witness:
  "add_student (Some demo_store) 1 ''Dan'' (Some []) =
     (Inr True,
      Some (demo_store\<lparr>students := students demo_store @
             [\<lparr>s_id = 4, s_course_id = 1, s_roll = None, s_name = ''Dan''\<rparr>],
           seq_students := 4\<rparr>))"
  using add_student_without_roll
    [where ro = "Some []" and st = demo_store and cid = 1 and n = "''Dan''"]
  by (simp add: demo_store_def strip_def is_space_def next_rowid_def)

section \<open>Foreign keys\<close>

text \<open>
  On a connection that enforces foreign keys the insert of a department under a missing
  college fails. The connection of \<^verbatim>\<open>get_conn\<close> does not enforce them.
\<close>

lemma insert_department_enforced:
  assumes "foreign_keys cn" and "coid \<notin> set (map co_id (colleges st))"
  shows "insert_department cn coid n st = Inl IntegrityError"
  using assms by (simp add: insert_department_def)

text \<open>
  C3. The claim is that an insert under a parent id that no row has is rejected and
  stores nothing. On the freshly initialised database, which has no college, department,
  course or student at all, \<^verbatim>\<open>add_department\<close>, \<^verbatim>\<open>add_course\<close> and \<^verbatim>\<open>add_student\<close> under
  the parent id 999 each return \<^verbatim>\<open>True\<close> and store the row, and
  \<^verbatim>\<open>mark_attendance_for_date\<close> stores a mark for the student id 999.
\<close>

theorem orphan_inserts_are_stored:
  "add_department (init_db None) 999 ''Physics'' =
     (Inr True,
      Some (empty_store\<lparr>departments :=
              [\<lparr>d_id = 1, d_college_id = 999, d_name = ''Physics''\<rparr>],
            seq_departments := 1\<rparr>)) \<and>
   add_course (init_db None) 999 ''Optics'' =
     (Inr True,
      Some (empty_store\<lparr>courses :=
              [\<lparr>c_id = 1, c_department_id = 999, c_name = ''Optics''\<rparr>],
            seq_courses := 1\<rparr>)) \<and>
   add_student (init_db None) 999 ''Eve'' (Some ''R9'') =
     (Inr True,
      Some (empty_store\<lparr>students :=
              [\<lparr>s_id = 1, s_course_id = 999, s_roll = Some ''R9'', s_name = ''Eve''\<rparr>],
            seq_students := 1\<rparr>)) \<and>
   mark_attendance_for_date (init_db None) [(999, ''Present'')] ''2024-01-01''
       ''2024-01-01T09:00:00'' =
     (Inr True,
      Some (empty_store\<lparr>attendance :=
              [\<lparr>a_id = 1, a_student_id = 999, a_date = ''2024-01-01'',
                a_status = ''Present'', a_timestamp = Some ''2024-01-01T09:00:00''\<rparr>],
            seq_attendance := 1\<rparr>))"
  by code_simp

section \<open>The flat attendance query\<close>

lemma where_rows_no_match:
  assumes "\<forall>r \<in> set (joined st). \<not> list_all (\<lambda>c. holds c r) cs"
  shows "where_rows cs st = []"
proof -
  have "filter (\<lambda>r. \<forall>c \<in> set cs. holds c r) (joined st) = []"
    using assms by (simp add: filter_empty_conv list_all_iff)
  then show ?thesis
    by (simp add: where_rows_def order_by_def)
qed

lemma read_sql_query_None: "read_sql_query None fc = Inl DatabaseError"
  by (simp add: read_sql_query_def)

lemma read_sql_query_Where_Nil: "read_sql_query db (Where []) = Inl DatabaseError"
  by (simp add: read_sql_query_def split: option.splits)

lemma read_sql_query_ok:
  "fc \<noteq> Where [] \<Longrightarrow> read_sql_query (Some st) fc =
     Inr \<lparr>columns = flat_columns,
          rows = where_rows (case fc of No_filter \<Rightarrow> [] | Where cs \<Rightarrow> cs) st\<rparr>"
  by (simp add: read_sql_query_def split: filter_clause.splits list.splits)

lemma get_attendance_df_Db_file:
  "get_attendance_df (Db_file db) fc =
     (case read_sql_query db fc of Inl e \<Rightarrow> Inr empty_DataFrame | Inr df \<Rightarrow> Inr df)"
  by (simp add: get_attendance_df_def sqlite3_connect_def)

text \<open>
  On a file that opens the query returns a table for every filter. When the read fails,
  which it does on a file without tables and on the filter text \<^verbatim>\<open>"WHERE "\<close>, the table
  is \<^verbatim>\<open>pd.DataFrame()\<close>; when no joined row passes the filter the table is empty as well.
\<close>

lemma get_attendance_df_open_file:
  "\<exists>df. get_attendance_df (Db_file db) fc = Inr df \<and>
     ((\<exists>e. read_sql_query db fc = Inl e) \<longrightarrow> df = empty_DataFrame) \<and>
     (db = None \<or> fc = Where [] \<longrightarrow> df = empty_DataFrame) \<and>
     ((\<forall>st. db = Some st \<longrightarrow> (\<forall>r \<in> set (joined st). \<not> matches fc r)) \<longrightarrow> empty df)"
proof (cases "read_sql_query db fc")
  case (Inl e)
  then have "get_attendance_df (Db_file db) fc = Inr empty_DataFrame"
    by (simp add: get_attendance_df_Db_file)
  then show ?thesis
    by (simp add: empty_def empty_DataFrame_def)
next
  case (Inr df)
  have "fc \<noteq> Where []"
  proof
    assume "fc = Where []"
    with Inr show False
      by (simp add: read_sql_query_Where_Nil)
  qed
  moreover obtain st where st: "db = Some st"
  proof (cases db)
    case None
    with Inr show ?thesis
      by (simp add: read_sql_query_None)
  next
    case (Some st)
    with that show ?thesis .
  qed
  ultimately have ok: "db \<noteq> None" "fc \<noteq> Where []"
    by simp_all
  have df: "df = \<lparr>columns = flat_columns,
          rows = where_rows (case fc of No_filter \<Rightarrow> [] | Where cs \<Rightarrow> cs) st\<rparr>"
    using Inr ok st by (simp add: read_sql_query_ok)
  have "rows df = []" if "\<forall>r \<in> set (joined st). \<not> matches fc r"
  proof (cases fc)
    case No_filter
    with that have "joined st = []"
      by (cases "joined st") auto
    then show ?thesis
      by (simp add: df No_filter where_rows_def order_by_def)
  next
    case (Where cs)
    with that show ?thesis
      by (simp add: df where_rows_no_match)
  qed
  moreover have "get_attendance_df (Db_file db) fc = Inr df"
    using Inr by (simp add: get_attendance_df_Db_file)
  ultimately show ?thesis
    using Inr ok st by (simp add: empty_def)
qed

text \<open>
  C8. The claim is that the flat query never raises and returns an empty table when the
  underlying read fails. When the database file cannot be opened, the unused
  \<^verbatim>\<open>conn = get_conn()\<close> ahead of the \<^verbatim>\<open>try\<close> raises \<^verbatim>\<open>OperationalError\<close>, and
  \<^verbatim>\<open>get_attendance_df\<close> raises it, whatever the filter.
\<close>

theorem get_attendance_df_raises_when_connect_fails:
  "get_attendance_df Cannot_open fc = Inl OperationalError"
  by (simp add: get_attendance_df_def sqlite3_connect_def)

section \<open>Marking attendance\<close>

lemma upsert_attendance_get_conn:
  "upsert_attendance get_conn sid d s ts st = Inr (upsert_rows sid d s ts st)"
  by (simp add: upsert_attendance_def get_conn_def)

lemma upsert_all_get_conn:
  "upsert_all get_conn m d ts (Some st) =
     Inr (Some (fold (\<lambda>(sid, s). upsert_rows sid d s ts) m st))"
proof (induction m arbitrary: st)
  case Nil
  show ?case by simp
next
  case (Cons p m)
  obtain sid s where p: "p = (sid, s)"
    by (cases p)
  show ?case
    by (simp add: p execute_Some upsert_attendance_get_conn Cons.IH)
qed

lemma mark_attendance_Some:
  "mark_attendance_for_date (Some st) m d ts =
     (Inr True, Some (fold (\<lambda>(sid, s). upsert_rows sid d s ts) m st))"
  by (simp add: mark_attendance_for_date_def upsert_all_get_conn)

lemma mark_attendance_None:
  "mark_attendance_for_date None m d ts =
     (if m = [] then (Inr True, None) else (Inl OperationalError, None))"
  by (cases m) (auto simp add: mark_attendance_for_date_def execute_def)

text \<open>One upsert, seen on the attendance table.\<close>

lemma attendance_upsert_rows:
  "attendance (upsert_rows sid d s ts st) =
     (if \<exists>r \<in> set (attendance st). a_student_id r = sid \<and> a_date r = d
      then map (\<lambda>r. if a_student_id r = sid \<and> a_date r = d
                     then r\<lparr>a_status := s, a_timestamp := Some ts\<rparr> else r) (attendance st)
      else attendance st @
             [\<lparr>a_id = next_rowid (seq_attendance st) (map a_id (attendance st)),
               a_student_id = sid, a_date = d, a_status = s, a_timestamp = Some ts\<rparr>])"
  by (simp add: upsert_rows_def Let_def)

lemma filter_overwrite_other:
  assumes "\<And>r. P (r\<lparr>a_status := s, a_timestamp := Some ts\<rparr>) = P r"
    and "\<And>r. P r \<Longrightarrow> \<not> (a_student_id r = sid \<and> a_date r = d)"
  shows "filter P (map (\<lambda>r. if a_student_id r = sid \<and> a_date r = d
                     then r\<lparr>a_status := s, a_timestamp := Some ts\<rparr> else r) xs) = filter P xs"
proof (induction xs)
  case Nil
  show ?case by simp
next
  case (Cons x xs)
  show ?case
  proof (cases "a_student_id x = sid \<and> a_date x = d")
    case True
    then have "\<not> P x"
      using assms(2) by blast
    then have "\<not> P (x\<lparr>a_status := s, a_timestamp := Some ts\<rparr>)"
      by (simp add: assms(1))
    with True \<open>\<not> P x\<close> Cons.IH show ?thesis
      by simp
  next
    case False
    with Cons.IH show ?thesis
      by auto
  qed
qed

lemma upsert_rows_frame:
  assumes "\<And>r. P (r\<lparr>a_status := s, a_timestamp := Some ts\<rparr>) = P r"
    and "\<And>r. P r \<Longrightarrow> \<not> (a_student_id r = sid \<and> a_date r = d)"
  shows "filter P (attendance (upsert_rows sid d s ts st)) = filter P (attendance st)"
proof (cases "\<exists>r \<in> set (attendance st). a_student_id r = sid \<and> a_date r = d")
  case True
  then have "attendance (upsert_rows sid d s ts st) =
      map (\<lambda>r. if a_student_id r = sid \<and> a_date r = d
                then r\<lparr>a_status := s, a_timestamp := Some ts\<rparr> else r) (attendance st)"
    unfolding attendance_upsert_rows by (rule if_P)
  then show ?thesis
    by (simp only: filter_overwrite_other [of P, OF assms])
next
  case False
  then have "attendance (upsert_rows sid d s ts st) = attendance st @
             [\<lparr>a_id = next_rowid (seq_attendance st) (map a_id (attendance st)),
               a_student_id = sid, a_date = d, a_status = s, a_timestamp = Some ts\<rparr>]"
    unfolding attendance_upsert_rows by (rule if_not_P)
  moreover have "\<not> P \<lparr>a_id = next_rowid (seq_attendance st) (map a_id (attendance st)),
               a_student_id = sid, a_date = d, a_status = s, a_timestamp = Some ts\<rparr>"
    using assms(2) by fastforce
  ultimately show ?thesis
    by simp
qed

lemma upsert_rows_other_student:
  assumes "sid' \<noteq> sid"
  shows "[r \<leftarrow> attendance (upsert_rows sid d s ts st). a_student_id r = sid'] =
         [r \<leftarrow> attendance st. a_student_id r = sid']"
  using assms by (intro upsert_rows_frame) simp_all

lemma upsert_rows_other_date:
  assumes "d' \<noteq> d"
  shows "[r \<leftarrow> attendance (upsert_rows sid d s ts st). a_date r = d'] =
         [r \<leftarrow> attendance st. a_date r = d']"
  using assms by (intro upsert_rows_frame) simp_all

lemma filter_conj: "filter (\<lambda>x. A x \<and> B x) xs = filter B (filter A xs)"
  by (induction xs) auto

lemma marks_for_by_student:
  "marks_for st sid d = [r \<leftarrow> [r \<leftarrow> attendance st. a_student_id r = sid]. a_date r = d]"
  unfolding marks_for_def by (rule filter_conj)

lemma upsert_rows_keys:
  "map (\<lambda>r. (a_student_id r, a_date r)) (attendance (upsert_rows sid d s ts st)) =
     (if (sid, d) \<in> set (map (\<lambda>r. (a_student_id r, a_date r)) (attendance st))
      then map (\<lambda>r. (a_student_id r, a_date r)) (attendance st)
      else map (\<lambda>r. (a_student_id r, a_date r)) (attendance st) @ [(sid, d)])"
proof -
  have "map (\<lambda>r. (a_student_id r, a_date r))
          (map (\<lambda>r. if a_student_id r = sid \<and> a_date r = d
                     then r\<lparr>a_status := s, a_timestamp := Some ts\<rparr> else r) xs) =
        map (\<lambda>r. (a_student_id r, a_date r)) xs" for xs
    by (induction xs) auto
  moreover have "((sid, d) \<in> set (map (\<lambda>r. (a_student_id r, a_date r)) (attendance st))) =
      (\<exists>r \<in> set (attendance st). a_student_id r = sid \<and> a_date r = d)"
    by auto
  ultimately show ?thesis
    by (simp add: attendance_upsert_rows del: set_map)
qed

lemma upsert_rows_unique:
  assumes "unique_attendance st"
  shows "unique_attendance (upsert_rows sid d s ts st)"
  using assms by (simp add: unique_attendance_def upsert_rows_keys del: set_map)

lemma unique_key_filter:
  assumes "distinct (map k xs)" and "x \<in> set xs"
  shows "filter (\<lambda>r. k r = k x) xs = [x]"
  using assms
proof (induction xs)
  case Nil
  then show ?case by simp
next
  case (Cons y ys)
  show ?case
  proof (cases "x = y")
    case True
    have "filter (\<lambda>r. k r = k y) ys = []"
      using Cons.prems(1) by (auto simp add: filter_empty_conv image_iff)
    with True show ?thesis by simp
  next
    case False
    with Cons.prems have x: "x \<in> set ys"
      by simp
    have "k y \<notin> k ` set ys"
      using Cons.prems(1) by simp
    with x have "k y \<noteq> k x"
      by (metis imageI)
    with x Cons show ?thesis by simp
  qed
qed

lemma unique_marks_for:
  assumes "unique_attendance st" and "r0 \<in> set (attendance st)"
    and "a_student_id r0 = sid" and "a_date r0 = d"
  shows "marks_for st sid d = [r0]"
proof -
  have "filter (\<lambda>r. (a_student_id r, a_date r) = (a_student_id r0, a_date r0)) (attendance st) = [r0]"
    using assms(1,2) unfolding unique_attendance_def by (rule unique_key_filter)
  then show ?thesis
    using assms(3,4) by (simp add: marks_for_def)
qed

lemma upsert_rows_marks_for:
  assumes "unique_attendance st"
  shows "\<exists>r. marks_for (upsert_rows sid d s ts st) sid d = [r] \<and>
           a_status r = s \<and> a_timestamp r = Some ts \<and>
           (\<forall>r0. marks_for st sid d = [r0] \<longrightarrow> r = r0\<lparr>a_status := s, a_timestamp := Some ts\<rparr>)"
proof (cases "\<exists>r \<in> set (attendance st). a_student_id r = sid \<and> a_date r = d")
  case True
  then obtain r0 where r0: "r0 \<in> set (attendance st)" "a_student_id r0 = sid" "a_date r0 = d"
    by blast
  have old: "marks_for st sid d = [r0]"
    using assms r0 by (rule unique_marks_for)
  have "filter (\<lambda>r. a_student_id r = sid \<and> a_date r = d)
          (map (\<lambda>r. if a_student_id r = sid \<and> a_date r = d
                     then r\<lparr>a_status := s, a_timestamp := Some ts\<rparr> else r) xs) =
        map (\<lambda>r. r\<lparr>a_status := s, a_timestamp := Some ts\<rparr>)
          (filter (\<lambda>r. a_student_id r = sid \<and> a_date r = d) xs)" for xs
    by (induction xs) auto
  then have "marks_for (upsert_rows sid d s ts st) sid d =
      map (\<lambda>r. r\<lparr>a_status := s, a_timestamp := Some ts\<rparr>) (marks_for st sid d)"
    using True by (simp add: marks_for_def attendance_upsert_rows)
  then show ?thesis
    by (simp add: old)
next
  case False
  then have "marks_for st sid d = []"
    by (auto simp add: marks_for_def filter_empty_conv)
  moreover have "attendance (upsert_rows sid d s ts st) = attendance st @
             [\<lparr>a_id = next_rowid (seq_attendance st) (map a_id (attendance st)),
               a_student_id = sid, a_date = d, a_status = s, a_timestamp = Some ts\<rparr>]"
    unfolding attendance_upsert_rows using False by (rule if_not_P)
  ultimately show ?thesis
    by (simp add: marks_for_def)
qed

text \<open>The whole batch, as a fold of single upserts.\<close>

lemma batch_other_student:
  assumes "sid' \<notin> fst ` set m"
  shows "[r \<leftarrow> attendance (fold (\<lambda>(sid, s). upsert_rows sid d s ts) m st). a_student_id r = sid'] =
         [r \<leftarrow> attendance st. a_student_id r = sid']"
  using assms
proof (induction m arbitrary: st)
  case Nil
  show ?case by simp
next
  case (Cons p m)
  obtain sid s where p: "p = (sid, s)"
    by (cases p)
  from Cons.prems have "sid' \<noteq> sid" "sid' \<notin> fst ` set m"
    by (auto simp add: p)
  then show ?case
    by (simp add: p Cons.IH upsert_rows_other_student)
qed

lemma batch_other_date:
  assumes "d' \<noteq> d"
  shows "[r \<leftarrow> attendance (fold (\<lambda>(sid, s). upsert_rows sid d s ts) m st). a_date r = d'] =
         [r \<leftarrow> attendance st. a_date r = d']"
proof (induction m arbitrary: st)
  case Nil
  show ?case by simp
next
  case (Cons p m)
  obtain sid s where p: "p = (sid, s)"
    by (cases p)
  show ?case
    by (simp add: p Cons.IH upsert_rows_other_date [OF assms])
qed

lemma batch_unique:
  assumes "unique_attendance st"
  shows "unique_attendance (fold (\<lambda>(sid, s). upsert_rows sid d s ts) m st)"
  using assms
proof (induction m arbitrary: st)
  case Nil
  then show ?case by simp
next
  case (Cons p m)
  obtain sid s where p: "p = (sid, s)"
    by (cases p)
  show ?case
    by (simp add: p Cons.IH upsert_rows_unique Cons.prems)
qed

lemma batch_marks_for:
  assumes "unique_attendance st" and "distinct (map fst m)" and "(sid, s) \<in> set m"
  shows "\<exists>r. marks_for (fold (\<lambda>(sid, s). upsert_rows sid d s ts) m st) sid d = [r] \<and>
           a_status r = s \<and> a_timestamp r = Some ts \<and>
           (\<forall>r0. marks_for st sid d = [r0] \<longrightarrow> r = r0\<lparr>a_status := s, a_timestamp := Some ts\<rparr>)"
  using assms
proof (induction m arbitrary: st)
  case Nil
  then show ?case by simp
next
  case (Cons p m)
  obtain sid1 s1 where p: "p = (sid1, s1)"
    by (cases p)
  let ?st1 = "upsert_rows sid1 d s1 ts st"
  have fold: "fold (\<lambda>(sid, s). upsert_rows sid d s ts) (p # m) st =
      fold (\<lambda>(sid, s). upsert_rows sid d s ts) m ?st1"
    by (simp add: p)
  show ?case
  proof (cases "sid1 = sid")
    case True
    from Cons.prems(2) have notin: "sid \<notin> fst ` set m"
      by (simp add: p True)
    with Cons.prems(3) have "s1 = s"
      by (auto simp add: p True image_iff)
    have "marks_for (fold (\<lambda>(sid, s). upsert_rows sid d s ts) m ?st1) sid d =
        marks_for ?st1 sid d"
      by (simp add: marks_for_by_student batch_other_student [OF notin])
    then show ?thesis
      using upsert_rows_marks_for [OF Cons.prems(1), of sid d s ts]
      unfolding fold by (simp add: True \<open>s1 = s\<close>)
  next
    case False
    with Cons.prems(3) have mem: "(sid, s) \<in> set m"
      by (auto simp add: p)
    have "unique_attendance ?st1"
      using Cons.prems(1) by (rule upsert_rows_unique)
    moreover have "distinct (map fst m)"
      using Cons.prems(2) by simp
    ultimately have
      "\<exists>r. marks_for (fold (\<lambda>(sid, s). upsert_rows sid d s ts) m ?st1) sid d = [r] \<and>
           a_status r = s \<and> a_timestamp r = Some ts \<and>
           (\<forall>r0. marks_for ?st1 sid d = [r0] \<longrightarrow>
              r = r0\<lparr>a_status := s, a_timestamp := Some ts\<rparr>)"
      using mem by (rule Cons.IH)
    moreover have "marks_for ?st1 sid d = marks_for st sid d"
      using False by (simp add: marks_for_by_student upsert_rows_other_student)
    ultimately show ?thesis
      unfolding fold by simp
  qed
qed

lemma upsert_rows_timestamps:
  assumes "\<forall>r \<in> set (attendance st). a_student_id r \<in> S \<and> a_date r = d \<longrightarrow> a_timestamp r = Some ts"
  shows "\<forall>r \<in> set (attendance (upsert_rows sid d s ts st)).
           a_student_id r \<in> insert sid S \<and> a_date r = d \<longrightarrow> a_timestamp r = Some ts"
  using assms by (auto simp add: attendance_upsert_rows)

lemma batch_timestamps:
  assumes "\<forall>r \<in> set (attendance st). a_student_id r \<in> S \<and> a_date r = d \<longrightarrow> a_timestamp r = Some ts"
  shows "\<forall>r \<in> set (attendance (fold (\<lambda>(sid, s). upsert_rows sid d s ts) m st)).
           a_student_id r \<in> S \<union> fst ` set m \<and> a_date r = d \<longrightarrow> a_timestamp r = Some ts"
  using assms
proof (induction m arbitrary: st S)
  case Nil
  then show ?case by simp
next
  case (Cons p m)
  obtain sid s where p: "p = (sid, s)"
    by (cases p)
  have "\<forall>r \<in> set (attendance (fold (\<lambda>(sid, s). upsert_rows sid d s ts) m (upsert_rows sid d s ts st))).
           a_student_id r \<in> insert sid S \<union> fst ` set m \<and> a_date r = d \<longrightarrow> a_timestamp r = Some ts"
    using upsert_rows_timestamps [OF Cons.prems] by (rule Cons.IH)
  then show ?case
    by (simp add: p)
qed

lemma upsert_rows_key_set:
  "(\<lambda>r. (a_student_id r, a_date r)) ` set (attendance (upsert_rows sid d s ts st)) =
     insert (sid, d) ((\<lambda>r. (a_student_id r, a_date r)) ` set (attendance st))"
proof -
  have "set (map (\<lambda>r. (a_student_id r, a_date r)) (attendance (upsert_rows sid d s ts st))) =
     insert (sid, d) (set (map (\<lambda>r. (a_student_id r, a_date r)) (attendance st)))"
    unfolding upsert_rows_keys by auto
  then show ?thesis
    by simp
qed

lemma batch_key_set:
  "(\<lambda>r. (a_student_id r, a_date r)) `
      set (attendance (fold (\<lambda>(sid, s). upsert_rows sid d s ts) m st)) =
     (\<lambda>sid. (sid, d)) ` fst ` set m \<union> (\<lambda>r. (a_student_id r, a_date r)) ` set (attendance st)"
proof (induction m arbitrary: st)
  case Nil
  show ?case by simp
next
  case (Cons p m)
  obtain sid s where p: "p = (sid, s)"
    by (cases p)
  show ?case
    by (simp add: p Cons.IH upsert_rows_key_set)
qed

lemma batch_has_row:
  assumes "sid \<in> fst ` set m"
  shows "marks_for (fold (\<lambda>(sid, s). upsert_rows sid d s ts) m st) sid d \<noteq> []"
proof -
  have "(sid, d) \<in> (\<lambda>r. (a_student_id r, a_date r)) `
      set (attendance (fold (\<lambda>(sid, s). upsert_rows sid d s ts) m st))"
    unfolding batch_key_set using assms by blast
  then show ?thesis
    by (auto simp add: marks_for_def filter_empty_conv)
qed

text \<open>
  C9. One call of \<^verbatim>\<open>mark_attendance_for_date\<close> reads the clock once, before the loop:
  after the call every listed student has a row for the date, and every such row,
  inserted or overwritten, carries that one timestamp. On a database with its tables the
  call returns \<^verbatim>\<open>True\<close>, and whenever the call returns at all the value is \<^verbatim>\<open>True\<close>.
\<close>

theorem mark_attendance_one_timestamp:
  "(\<exists>st'. mark_attendance_for_date (Some st) m d ts = (Inr True, Some st') \<and>
      (\<forall>r \<in> set (attendance st').
          a_student_id r \<in> fst ` set m \<and> a_date r = d \<longrightarrow> a_timestamp r = Some ts) \<and>
      (\<forall>sid \<in> fst ` set m. marks_for st' sid d \<noteq> [])) \<and>
   (\<forall>db b. fst (mark_attendance_for_date db m d ts) = Inr b \<longrightarrow> b)"
proof (intro conjI allI impI)
  let ?st' = "fold (\<lambda>(sid, s). upsert_rows sid d s ts) m st"
  have "\<forall>r \<in> set (attendance ?st').
          a_student_id r \<in> {} \<union> fst ` set m \<and> a_date r = d \<longrightarrow> a_timestamp r = Some ts"
    by (rule batch_timestamps) simp
  then show "\<exists>st'. mark_attendance_for_date (Some st) m d ts = (Inr True, Some st') \<and>
      (\<forall>r \<in> set (attendance st').
          a_student_id r \<in> fst ` set m \<and> a_date r = d \<longrightarrow> a_timestamp r = Some ts) \<and>
      (\<forall>sid \<in> fst ` set m. marks_for st' sid d \<noteq> [])"
    by (simp add: mark_attendance_Some batch_has_row)
next
  fix db b
  assume "fst (mark_attendance_for_date db m d ts) = Inr b"
  then show b
    by (cases db) (auto simp add: mark_attendance_Some mark_attendance_None split: if_splits)
qed

theorem mark_attendance_one_timestamp_witness:
  "mark_attendance_for_date (Some demo_store) [(1, ''Present''), (2, ''Absent'')]
       ''2024-01-05'' ''2024-01-05T09:00:00'' =
     (Inr True,
      Some (demo_store\<lparr>attendance :=
              [\<lparr>a_id = 1, a_student_id = 1, a_date = ''2024-01-05'', a_status = ''Present'',
                a_timestamp = Some ''2024-01-05T09:00:00''\<rparr>,
               \<lparr>a_id = 2, a_student_id = 2, a_date = ''2024-01-05'', a_status = ''Absent'',
                a_timestamp = Some ''2024-01-05T09:00:00''\<rparr>],
            seq_attendance := 2\<rparr>)) \<and>
   (\<exists>st'. mark_attendance_for_date (Some demo_store) [(1, ''Present''), (2, ''Absent'')]
       ''2024-01-05'' ''2024-01-05T09:00:00'' = (Inr True, Some st') \<and>
      list_all (\<lambda>r. a_timestamp r = Some ''2024-01-05T09:00:00'') (attendance st'))"
proof -
  have eq: "mark_attendance_for_date (Some demo_store) [(1, ''Present''), (2, ''Absent'')]
       ''2024-01-05'' ''2024-01-05T09:00:00'' =
     (Inr True,
      Some (demo_store\<lparr>attendance :=
              [\<lparr>a_id = 1, a_student_id = 1, a_date = ''2024-01-05'', a_status = ''Present'',
                a_timestamp = Some ''2024-01-05T09:00:00''\<rparr>,
               \<lparr>a_id = 2, a_student_id = 2, a_date = ''2024-01-05'', a_status = ''Absent'',
                a_timestamp = Some ''2024-01-05T09:00:00''\<rparr>],
            seq_attendance := 2\<rparr>))"
    by code_simp
  from mark_attendance_one_timestamp
    [of demo_store "[(1, ''Present''), (2, ''Absent'')]" "''2024-01-05''" "''2024-01-05T09:00:00''"]
  obtain st' where st':
    "mark_attendance_for_date (Some demo_store) [(1, ''Present''), (2, ''Absent'')]
       ''2024-01-05'' ''2024-01-05T09:00:00'' = (Inr True, Some st')"
    "\<forall>r \<in> set (attendance st').
       a_student_id r \<in> fst ` set [(1, ''Present''), (2, ''Absent'')] \<and> a_date r = ''2024-01-05''
         \<longrightarrow> a_timestamp r = Some ''2024-01-05T09:00:00''"
    by blast
  from st'(1) eq have "attendance st' =
      [\<lparr>a_id = 1, a_student_id = 1, a_date = ''2024-01-05'', a_status = ''Present'',
                a_timestamp = Some ''2024-01-05T09:00:00''\<rparr>,
               \<lparr>a_id = 2, a_student_id = 2, a_date = ''2024-01-05'', a_status = ''Absent'',
                a_timestamp = Some ''2024-01-05T09:00:00''\<rparr>]"
    by auto
  with st'(2) have "list_all (\<lambda>r. a_timestamp r = Some ''2024-01-05T09:00:00'') (attendance st')"
    by simp
  with st'(1) eq show ?thesis
    by blast
qed

lemma newer_timestamp_single:
  assumes "marks_for st sid d = [r0]" and "marks_for st' sid d = [r]"
    and "a_timestamp r = Some t"
  shows "newer_timestamp (Some st) (Some st') sid d = (\<exists>t0. a_timestamp r0 = Some t0 \<and> t0 < t)"
  using assms by (cases "a_timestamp r0") (simp_all add: newer_timestamp_def)

text \<open>
  C1, as amended. On a table that satisfies \<^verbatim>\<open>UNIQUE(student_id, date)\<close>, a call of
  \<^verbatim>\<open>mark_attendance_for_date\<close> whose dict lists a student leaves exactly one row for
  that student and date, with the listed status and the timestamp the call has read; a
  row that existed is the same row overwritten. A second call for the same student and
  date again leaves that one row, now with the second status and the second call's
  timestamp. The timestamp is later than the one it replaces exactly when the second
  reading of the clock, at its resolution of one second, is later than the first.
\<close>

theorem mark_attendance_upsert:
  assumes "unique_attendance st" and "distinct (map fst m)" and "(sid, s) \<in> set m"
  shows "\<exists>st' r. mark_attendance_for_date (Some st) m d ts = (Inr True, Some st') \<and>
           unique_attendance st' \<and>
           marks_for st' sid d = [r] \<and> a_status r = s \<and> a_timestamp r = Some ts \<and>
           (\<forall>r0. marks_for st sid d = [r0] \<longrightarrow>
              r = r0\<lparr>a_status := s, a_timestamp := Some ts\<rparr> \<and>
              (newer_timestamp (Some st) (Some st') sid d
                 \<longleftrightarrow> (\<exists>t0. a_timestamp r0 = Some t0 \<and> t0 < ts))) \<and>
           (\<forall>m2 s2 ts2. distinct (map fst m2) \<and> (sid, s2) \<in> set m2 \<longrightarrow>
              (\<exists>st'' r2. mark_attendance_for_date (Some st') m2 d ts2 = (Inr True, Some st'') \<and>
                 marks_for st'' sid d = [r2] \<and>
                 r2 = r\<lparr>a_status := s2, a_timestamp := Some ts2\<rparr> \<and>
                 (newer_timestamp (Some st') (Some st'') sid d \<longleftrightarrow> ts < ts2)))"
proof -
  let ?st' = "fold (\<lambda>(sid, s). upsert_rows sid d s ts) m st"
  have uniq: "unique_attendance ?st'"
    using assms(1) by (rule batch_unique)
  from batch_marks_for [OF assms, of d ts]
  obtain r where r: "marks_for ?st' sid d = [r]" "a_status r = s" "a_timestamp r = Some ts"
    and old: "\<forall>r0. marks_for st sid d = [r0] \<longrightarrow> r = r0\<lparr>a_status := s, a_timestamp := Some ts\<rparr>"
    by blast
  have first: "\<forall>r0. marks_for st sid d = [r0] \<longrightarrow>
              r = r0\<lparr>a_status := s, a_timestamp := Some ts\<rparr> \<and>
              (newer_timestamp (Some st) (Some ?st') sid d
                 \<longleftrightarrow> (\<exists>t0. a_timestamp r0 = Some t0 \<and> t0 < ts))"
    using old r by (simp add: newer_timestamp_single)
  have second: "\<exists>st'' r2. mark_attendance_for_date (Some ?st') m2 d ts2 = (Inr True, Some st'') \<and>
                 marks_for st'' sid d = [r2] \<and>
                 r2 = r\<lparr>a_status := s2, a_timestamp := Some ts2\<rparr> \<and>
                 (newer_timestamp (Some ?st') (Some st'') sid d \<longleftrightarrow> ts < ts2)"
    if "distinct (map fst m2) \<and> (sid, s2) \<in> set m2" for m2 s2 ts2
  proof -
    let ?st'' = "fold (\<lambda>(sid, s). upsert_rows sid d s ts2) m2 ?st'"
    from that have "distinct (map fst m2)" "(sid, s2) \<in> set m2"
      by simp_all
    with uniq obtain r2 where r2: "marks_for ?st'' sid d = [r2]" "a_timestamp r2 = Some ts2"
      "\<forall>r0. marks_for ?st' sid d = [r0] \<longrightarrow> r2 = r0\<lparr>a_status := s2, a_timestamp := Some ts2\<rparr>"
      using batch_marks_for [of ?st' m2 sid s2 d ts2] by blast
    from r2(3) r(1) have "r2 = r\<lparr>a_status := s2, a_timestamp := Some ts2\<rparr>"
      by simp
    moreover have "newer_timestamp (Some ?st') (Some ?st'') sid d \<longleftrightarrow> ts < ts2"
      using r(1,3) r2(1,2) by (simp add: newer_timestamp_single)
    ultimately show ?thesis
      using r2(1) by (simp add: mark_attendance_Some)
  qed
  have "mark_attendance_for_date (Some st) m d ts = (Inr True, Some ?st')"
    by (rule mark_attendance_Some)
  with uniq r first second show ?thesis
    by blast
qed

theorem mark_attendance_upsert_witness:
  "\<exists>st' r. mark_attendance_for_date (Some demo_marked_store) [(1, ''Absent'')] ''2024-01-05''
        ''2024-01-05T09:00:01'' = (Inr True, Some st') \<and>
     marks_for st' 1 ''2024-01-05'' = [r] \<and>
     r = \<lparr>a_id = 1, a_student_id = 1, a_date = ''2024-01-05'', a_status = ''Absent'',
          a_timestamp = Some ''2024-01-05T09:00:01''\<rparr> \<and>
     newer_timestamp (Some demo_marked_store) (Some st') 1 ''2024-01-05''"
proof -
  have uniq: "unique_attendance demo_marked_store"
    by code_simp
  have keys: "distinct (map fst [(1::int, ''Absent'')])"
    by simp
  have listed: "(1, ''Absent'') \<in> set [(1::int, ''Absent'')]"
    by simp
  have old: "marks_for demo_marked_store 1 ''2024-01-05'' =
      [\<lparr>a_id = 1, a_student_id = 1, a_date = ''2024-01-05'', a_status = ''Present'',
        a_timestamp = Some ''2024-01-05T09:00:00''\<rparr>]"
    by code_simp
  have later: "''2024-01-05T09:00:00'' < ''2024-01-05T09:00:01''"
    by simp
  from mark_attendance_upsert [OF uniq keys listed, of "''2024-01-05''" "''2024-01-05T09:00:01''"]
  obtain st' r where
    "mark_attendance_for_date (Some demo_marked_store) [(1, ''Absent'')] ''2024-01-05''
        ''2024-01-05T09:00:01'' = (Inr True, Some st')"
    "marks_for st' 1 ''2024-01-05'' = [r]"
    "\<forall>r0. marks_for demo_marked_store 1 ''2024-01-05'' = [r0] \<longrightarrow>
              r = r0\<lparr>a_status := ''Absent'', a_timestamp := Some ''2024-01-05T09:00:01''\<rparr> \<and>
              (newer_timestamp (Some demo_marked_store) (Some st') 1 ''2024-01-05''
                 \<longleftrightarrow> (\<exists>t0. a_timestamp r0 = Some t0 \<and> t0 < ''2024-01-05T09:00:01''))"
    by blast
  with old later show ?thesis
    by simp
qed

text \<open>
  C1, as stated, fails where it promises a newer timestamp: Alice is marked present and,
  within the same second, marked absent for the same date. The one row then holds the
  latest status and a timestamp equal to the one it replaced.
\<close>

theorem remark_within_one_second_counterexample:
  "demo_marked_once = Some demo_marked_store \<and>
   map_option (\<lambda>st. marks_for st 1 ''2024-01-05'') demo_marked_once =
     Some [\<lparr>a_id = 1, a_student_id = 1, a_date = ''2024-01-05'', a_status = ''Present'',
             a_timestamp = Some ''2024-01-05T09:00:00''\<rparr>] \<and>
   map_option (\<lambda>st. marks_for st 1 ''2024-01-05'') demo_marked_twice =
     Some [\<lparr>a_id = 1, a_student_id = 1, a_date = ''2024-01-05'', a_status = ''Absent'',
             a_timestamp = Some ''2024-01-05T09:00:00''\<rparr>] \<and>
   \<not> newer_timestamp demo_marked_once demo_marked_twice 1 ''2024-01-05''"
  by code_simp

lemma batch_other_student_marks:
  assumes "sid' \<notin> fst ` set m"
  shows "marks_for (fold (\<lambda>(sid, s). upsert_rows sid d s ts) m st) sid' d' = marks_for st sid' d'"
  unfolding marks_for_by_student by (simp only: batch_other_student [OF assms])

text \<open>
  C5. A student whom the dict does not list keeps all attendance rows as they were: none
  is created, none is changed, in particular none for the date of the call. With the
  dict \<open>{A: Present, B: Absent}\<close> and a third student \<open>C\<close> who has no row for the date,
  the call leaves \<open>A\<close> with one row saying Present, \<open>B\<close> with one row saying Absent, and
  \<open>C\<close> with no row.
\<close>

theorem mark_attendance_frame:
  "(sid \<notin> fst ` set m \<longrightarrow>
      (\<exists>st'. mark_attendance_for_date (Some st) m d ts = (Inr True, Some st') \<and>
         [r \<leftarrow> attendance st'. a_student_id r = sid] = [r \<leftarrow> attendance st. a_student_id r = sid] \<and>
         marks_for st' sid d = marks_for st sid d)) \<and>
   (unique_attendance st \<and> A \<noteq> B \<and> C \<noteq> A \<and> C \<noteq> B \<and> marks_for st C d = [] \<longrightarrow>
      (\<exists>st' ra rb.
         mark_attendance_for_date (Some st) [(A, ''Present''), (B, ''Absent'')] d ts =
           (Inr True, Some st') \<and>
         marks_for st' A d = [ra] \<and> a_status ra = ''Present'' \<and>
         marks_for st' B d = [rb] \<and> a_status rb = ''Absent'' \<and>
         marks_for st' C d = []))"
proof (intro conjI impI)
  assume notin: "sid \<notin> fst ` set m"
  show "\<exists>st'. mark_attendance_for_date (Some st) m d ts = (Inr True, Some st') \<and>
         [r \<leftarrow> attendance st'. a_student_id r = sid] = [r \<leftarrow> attendance st. a_student_id r = sid] \<and>
         marks_for st' sid d = marks_for st sid d"
    by (simp add: mark_attendance_Some batch_other_student [OF notin]
        batch_other_student_marks [OF notin])
next
  assume a: "unique_attendance st \<and> A \<noteq> B \<and> C \<noteq> A \<and> C \<noteq> B \<and> marks_for st C d = []"
  let ?m = "[(A, ''Present''), (B, ''Absent'')]"
  let ?st' = "fold (\<lambda>(sid, s). upsert_rows sid d s ts) ?m st"
  from a have uniq: "unique_attendance st" and keys: "distinct (map fst ?m)"
    by simp_all
  have "(A, ''Present'') \<in> set ?m"
    by simp
  with uniq keys obtain ra where ra: "marks_for ?st' A d = [ra]" "a_status ra = ''Present''"
    using batch_marks_for [of st ?m A "''Present''" d ts] by blast
  have "(B, ''Absent'') \<in> set ?m"
    by simp
  with uniq keys obtain rb where rb: "marks_for ?st' B d = [rb]" "a_status rb = ''Absent''"
    using batch_marks_for [of st ?m B "''Absent''" d ts] by blast
  from a have "C \<notin> fst ` set ?m"
    by simp
  then have "marks_for ?st' C d = marks_for st C d"
    by (rule batch_other_student_marks)
  with a have rc: "marks_for ?st' C d = []"
    by simp
  have "mark_attendance_for_date (Some st) ?m d ts = (Inr True, Some ?st')"
    by (rule mark_attendance_Some)
  with ra rb rc
  show "\<exists>st' ra rb.
         mark_attendance_for_date (Some st) [(A, ''Present''), (B, ''Absent'')] d ts =
           (Inr True, Some st') \<and>
         marks_for st' A d = [ra] \<and> a_status ra = ''Present'' \<and>
         marks_for st' B d = [rb] \<and> a_status rb = ''Absent'' \<and>
         marks_for st' C d = []"
    by blast
qed

theorem mark_attendance_frame_witness:
  "\<exists>st'. mark_attendance_for_date (Some demo_marked_store)
             [(2, ''Present''), (3, ''Absent'')] ''2024-01-06'' ''2024-01-06T10:30:00'' =
           (Inr True, Some st') \<and>
     [r \<leftarrow> attendance st'. a_student_id r = 1] =
       [\<lparr>a_id = 1, a_student_id = 1, a_date = ''2024-01-05'', a_status = ''Present'',
         a_timestamp = Some ''2024-01-05T09:00:00''\<rparr>] \<and>
     map a_status (marks_for st' 2 ''2024-01-06'') = [''Present''] \<and>
     map a_status (marks_for st' 3 ''2024-01-06'') = [''Absent''] \<and>
     marks_for st' 1 ''2024-01-06'' = []"
proof -
  let ?m = "[(2::int, ''Present''), (3, ''Absent'')]"
  have "(1::int) \<notin> fst ` set ?m"
    by simp
  with mark_attendance_frame
    [of 1 ?m demo_marked_store "''2024-01-06''" "''2024-01-06T10:30:00''" 2 3 1]
  obtain st1 where st1:
    "mark_attendance_for_date (Some demo_marked_store) ?m ''2024-01-06'' ''2024-01-06T10:30:00'' =
       (Inr True, Some st1)"
    "[r \<leftarrow> attendance st1. a_student_id r = 1] =
       [r \<leftarrow> attendance demo_marked_store. a_student_id r = 1]"
    by blast
  have "unique_attendance demo_marked_store \<and> (2::int) \<noteq> 3 \<and> (1::int) \<noteq> 2 \<and> (1::int) \<noteq> 3 \<and>
      marks_for demo_marked_store 1 ''2024-01-06'' = []"
    by code_simp
  with mark_attendance_frame
    [of 1 ?m demo_marked_store "''2024-01-06''" "''2024-01-06T10:30:00''" 2 3 1]
  obtain st2 ra rb where st2:
    "mark_attendance_for_date (Some demo_marked_store) ?m ''2024-01-06'' ''2024-01-06T10:30:00'' =
       (Inr True, Some st2)"
    "marks_for st2 2 ''2024-01-06'' = [ra]" "a_status ra = ''Present''"
    "marks_for st2 3 ''2024-01-06'' = [rb]" "a_status rb = ''Absent''"
    "marks_for st2 1 ''2024-01-06'' = []"
    by blast
  have old: "[r \<leftarrow> attendance demo_marked_store. a_student_id r = 1] =
      [\<lparr>a_id = 1, a_student_id = 1, a_date = ''2024-01-05'', a_status = ''Present'',
        a_timestamp = Some ''2024-01-05T09:00:00''\<rparr>]"
    by code_simp
  from st1(1) st2(1) have "st2 = st1"
    by simp
  with st1 st2 old show ?thesis
    by simp
qed

section \<open>The weekly report\<close>

lemma count_group_keys:
  "count_list (group_keys xs) (n, x) =
     length [r \<leftarrow> xs. student_name r = n \<and> roll r = Some x]"
  by (induction xs) (auto simp add: group_keys_def split: option.splits)

lemma mem_group_keys:
  "(n, x) \<in> set (group_keys xs) \<longleftrightarrow> (\<exists>r \<in> set xs. student_name r = n \<and> roll r = Some x)"
  by (induction xs) (auto simp add: group_keys_def split: option.splits)

lemma lookup_as_filter:
  "[c. ((n', s'), c) \<leftarrow> right, n' = n \<and> Some s' = ro] =
     map snd (filter (\<lambda>kc. fst (fst kc) = n \<and> Some (snd (fst kc)) = ro) right)"
  by (induction right) auto

lemma filter_distinct_key:
  assumes "distinct ks"
  shows "filter (\<lambda>k. k = a) ks = (if a \<in> set ks then [a] else [])"
  using assms by (induction ks) auto

lemma lookup_counts:
  assumes "distinct ks"
  shows "[c. ((n', s'), c) \<leftarrow> map (\<lambda>k. (k, f k)) ks, n' = n \<and> Some s' = ro] =
         (case ro of None \<Rightarrow> []
          | Some x \<Rightarrow> if (n, x) \<in> set ks then [f (n, x)] else [])"
proof (cases ro)
  case None
  show ?thesis
    unfolding None lookup_as_filter by simp
next
  case (Some x)
  have step: "filter (\<lambda>kc. fst (fst kc) = n \<and> Some (snd (fst kc)) = Some x) (map (\<lambda>k. (k, f k)) ks) =
      map (\<lambda>k. (k, f k)) (filter (\<lambda>k. k = (n, x)) ks)"
    by (induction ks) auto
  show ?thesis
    unfolding Some lookup_as_filter step filter_distinct_key [OF assms] by simp
qed

lemma merge_left_Cons:
  "merge_left ((n, ro) # left) right =
      (case [c. ((n', s'), c) \<leftarrow> right, n' = n \<and> Some s' = ro] of
           [] \<Rightarrow> [(n, ro, None)]
         | cs \<Rightarrow> map (\<lambda>c. (n, ro, Some c)) cs) @ merge_left left right"
  by (simp add: merge_left_def)

lemma merge_left_presences:
  "merge_left left (groupby_size xs) =
     map (\<lambda>(n, ro). (n, ro,
            case ro of None \<Rightarrow> None
            | Some x \<Rightarrow> if (n, x) \<in> set (group_keys xs)
                        then Some (count_list (group_keys xs) (n, x)) else None)) left"
proof (induction left)
  case Nil
  show ?case by (simp add: merge_left_def)
next
  case (Cons p left)
  obtain n ro where p: "p = (n, ro)"
    by (cases p)
  have dist: "distinct (sort (remdups (group_keys xs)))"
    by simp
  have look: "[c. ((n', s'), c) \<leftarrow> groupby_size xs, n' = n \<and> Some s' = ro] =
        (case ro of None \<Rightarrow> []
         | Some x \<Rightarrow> if (n, x) \<in> set (group_keys xs)
                     then [count_list (group_keys xs) (n, x)] else [])"
    unfolding groupby_size_def lookup_counts [OF dist] by (cases ro) simp_all
  show ?case
    unfolding p merge_left_Cons look Cons.IH
    by (simp split: option.splits)
qed

text \<open>
  The summary in closed form: one row per distinct (name, roll) pair of the raw rows, in
  order of first occurrence. A pair with a roll counts its Present rows; a pair without
  a roll is listed with roll 0 and count 0, whatever its rows say.
\<close>

lemma weekly_summary_closed:
  "weekly_summary df_week start_date end_date =
     map (\<lambda>(n, ro).
        \<lparr>sum_student_name = n,
         sum_roll = (case ro of None \<Rightarrow> Number 0 | Some x \<Rightarrow> Text x),
         PresentCount =
           (case ro of None \<Rightarrow> 0
            | Some x \<Rightarrow> int (length [r \<leftarrow> df_week.
                  status r = ''Present'' \<and> student_name r = n \<and> roll r = Some x])),
         TotalDays = days_between end_date start_date + 1,
         Attendance_pct =
           round2 (percent (case ro of None \<Rightarrow> 0
              | Some x \<Rightarrow> int (length [r \<leftarrow> df_week.
                  status r = ''Present'' \<and> student_name r = n \<and> roll r = Some x]))
             (days_between end_date start_date + 1))\<rparr>)
       (students_list df_week)"
proof -
  have pc: "(case (case ro of None \<Rightarrow> None
            | Some x \<Rightarrow> if (n, x) \<in> set (group_keys xs)
                        then Some (count_list (group_keys xs) (n, x)) else None) of
           None \<Rightarrow> 0 | Some k \<Rightarrow> int k) =
        (case ro of None \<Rightarrow> 0
         | Some x \<Rightarrow> int (length [r \<leftarrow> xs. student_name r = n \<and> roll r = Some x]))" for ro n xs
    by (cases ro) (auto simp add: count_group_keys mem_group_keys filter_empty_conv)
  show ?thesis
    unfolding weekly_summary_def presences_def merge_left_presences Let_def map_map
    by (rule map_cong) (auto simp add: pc split: option.splits)
qed

lemma students_list_pairs:
  "distinct (students_list df_week) \<and>
   set (students_list df_week) = (\<lambda>r. (student_name r, roll r)) ` set df_week"
  by (simp add: students_list_def drop_duplicates_def)

lemma weekly_summary_pairs:
  "map (\<lambda>r. (sum_student_name r, sum_roll r)) (weekly_summary df_week start_date end_date) =
     map (\<lambda>(n, ro). (n, case ro of None \<Rightarrow> Number 0 | Some x \<Rightarrow> Text x)) (students_list df_week)"
  unfolding weekly_summary_closed map_map by (rule map_cong) auto

lemma weekly_summary_counts_with_roll:
  assumes "r \<in> set (weekly_summary df_week start_date end_date)" and "sum_roll r = Text x"
  shows "PresentCount r =
     int (length [y \<leftarrow> df_week.
        status y = ''Present'' \<and> student_name y = sum_student_name r \<and> roll y = Some x])"
  using assms unfolding weekly_summary_closed by (auto split: option.splits)

lemma weekly_summary_zero_without_roll:
  assumes "r \<in> set (weekly_summary df_week start_date end_date)" and "sum_roll r = Number k"
  shows "PresentCount r = 0 \<and> k = 0"
  using assms unfolding weekly_summary_closed by (auto split: option.splits)

text \<open>
  Every row of a summary has the same \<open>TotalDays\<close>, the number of days from the start date
  to the end date with both counted, and its percentage is the rounded quotient of its
  \<open>PresentCount\<close> by \<open>TotalDays\<close>; three of seven days come out as the double nearest to
  42.86.
\<close>

lemma weekly_summary_rows:
  assumes "r \<in> set (weekly_summary df_week start_date end_date)"
  shows "TotalDays r = days_between end_date start_date + 1 \<and>
         Attendance_pct r = round2 (percent (PresentCount r) (TotalDays r))"
  using assms by (auto simp add: weekly_summary_def Let_def)

lemma weekly_report_summary:
  assumes "weekly_report p cid choice start_date end_date = Inr (Weekly summ df)"
  shows "summ = weekly_summary (rows df) start_date end_date"
  using assms
  by (auto simp add: weekly_report_def split: if_splits sum.splits)

lemma percent_three_of_seven: "round2 (percent 3 7) = double_of_quot 4286 100"
  by code_simp

text \<open>
  The rounding is that of the doubles: 23 of 160 days is 14.375 percent as a fraction,
  the program's double lies just below it, and the rounded percentage is 14.37.
\<close>

lemma percent_23_of_160: "round2 (percent 23 160) = double_of_quot 1437 100"
  by code_simp

text \<open>
  The weekly form offers as default start date the end date minus seven days; with both
  dates counted that range has eight days.
\<close>

lemma default_week_has_eight_days:
  assumes "toordinal start_date = toordinal end_date - 7"
  shows "days_between end_date start_date + 1 = 8"
  using assms by (simp add: days_between_def)

text \<open>
  C6. The claim is that a student with 3 Present days in a range of 7 days is listed with
  \<open>TotalDays = 7\<close>, \<open>PresentCount = 3\<close> and 42.86 percent. In the week of marking, from
  2024-01-01 to 2024-01-07, Alice and Bob are both present on three days. The report for
  Alice, who has a roll, shows these values. The report for Bob, who has none, shows
  \<open>TotalDays = 7\<close>, \<open>PresentCount = 0\<close> and 0 percent, on raw rows that hold his three
  Present days.
\<close>

theorem weekly_percent_without_roll:
  "days_between \<lparr>year = 2024, month = 1, day = 7\<rparr> \<lparr>year = 2024, month = 1, day = 1\<rparr> + 1 = 7 \<and>
   (case weekly_report (Db_file demo_week) 1 (Some 1) \<lparr>year = 2024, month = 1, day = 1\<rparr>
           \<lparr>year = 2024, month = 1, day = 7\<rparr> of
      Inr (Weekly summ df) \<Rightarrow>
        summ = [\<lparr>sum_student_name = ''Alice'', sum_roll = Text ''R1'', PresentCount = 3,
                 TotalDays = 7, Attendance_pct = double_of_quot 4286 100\<rparr>] \<and>
        map (\<lambda>x. (student_name x, date x, status x)) (rows df) =
          [(''Alice'', ''2024-01-04'', ''Absent''), (''Alice'', ''2024-01-03'', ''Present''),
           (''Alice'', ''2024-01-02'', ''Present''), (''Alice'', ''2024-01-01'', ''Present'')]
    | _ \<Rightarrow> False) \<and>
   (case weekly_report (Db_file demo_week) 1 (Some 2) \<lparr>year = 2024, month = 1, day = 1\<rparr>
           \<lparr>year = 2024, month = 1, day = 7\<rparr> of
      Inr (Weekly summ df) \<Rightarrow>
        summ = [\<lparr>sum_student_name = ''Bob'', sum_roll = Number 0, PresentCount = 0,
                 TotalDays = 7, Attendance_pct = Finite 0 0\<rparr>] \<and>
        map (\<lambda>x. (student_name x, date x, status x)) (rows df) =
          [(''Bob'', ''2024-01-04'', ''Absent''), (''Bob'', ''2024-01-03'', ''Present''),
           (''Bob'', ''2024-01-02'', ''Present''), (''Bob'', ''2024-01-01'', ''Present'')]
    | _ \<Rightarrow> False)"
  by code_simp

text \<open>
  C7. The claim is that every (name, roll) pair of the raw rows is listed with the number
  of its Present rows. In the week of marking Alice and Bob are both present on three
  days. The report lists Alice, who has a roll, with \<open>PresentCount = 3\<close>, and Bob, who
  has none, with \<open>PresentCount = 0\<close> and 0 percent, while the raw rows of the same report
  hold three Present rows of Bob.
\<close>

theorem weekly_summary_misses_presences_without_roll:
  "case weekly_report (Db_file demo_week) 1 None \<lparr>year = 2024, month = 1, day = 1\<rparr>
          \<lparr>year = 2024, month = 1, day = 7\<rparr> of
     Inr (Weekly summ df) \<Rightarrow>
       map (\<lambda>r. (sum_student_name r, sum_roll r, PresentCount r, Attendance_pct r)) summ =
         [(''Alice'', Text ''R1'', 3, double_of_quot 4286 100), (''Bob'', Number 0, 0, Finite 0 0)] \<and>
       length [x \<leftarrow> rows df. student_name x = ''Bob'' \<and> roll x = None \<and> status x = ''Present''] = 3
   | _ \<Rightarrow> False"
  by code_simp

end
